theory Spec2Isabelle
  imports Main "HOL-Library.Sublist" "HOL-Library.Word"
begin

section \<open>Project name prefixes (internal/server/project/project.go)\<close>

text \<open>
  Go strings are byte sequences; they are modelled as \<open>string\<close> (a list of bytes).
  The two constants of the package:
\<close>

definition Default :: string where
  "Default = ''default''"

definition separator :: string where
  "separator = ''_''"

subsection \<open>The string functions of the Go library that the package calls\<close>

text \<open>
  \<open>strings.Index\<close> and \<open>strings.LastIndex\<close>: the position of the first, respectively
  last, occurrence of \<open>substr\<close> in \<open>s\<close>, and \<open>-1\<close> when there is none. For the empty
  \<open>substr\<close> Go answers \<open>0\<close> and \<open>len(s)\<close>.
\<close>

fun Index :: "string \<Rightarrow> string \<Rightarrow> int" where
  "Index [] substr = (if substr = [] then 0 else - 1)"
| "Index (c # s) substr =
     (if prefix substr (c # s) then 0
      else (let r = Index s substr in if r < 0 then - 1 else r + 1))"

fun LastIndex :: "string \<Rightarrow> string \<Rightarrow> int" where
  "LastIndex [] substr = (if substr = [] then 0 else - 1)"
| "LastIndex (c # s) substr =
     (let r = LastIndex s substr
      in if 0 \<le> r then r + 1 else if prefix substr (c # s) then 0 else - 1)"

text \<open>
  \<open>strings.Count\<close> for a non-empty separator: the number of non-overlapping occurrences.
  The search restarts behind each occurrence, so the recursion is on a shorter string.
\<close>

function Count :: "string \<Rightarrow> string \<Rightarrow> nat" where
  "Count s sep =
     (if sep = [] then length s + 1
      else (let i = Index s sep
            in if i < 0 then 0 else 1 + Count (drop (nat i + length sep) s) sep))"
  by pat_completeness auto

termination Count
proof (relation "measure (\<lambda>(s, sep). length s)")
  show "wf (measure (\<lambda>(s, sep). length s))" by simp
next
  fix s sep :: string and x :: int
  assume sep: "sep \<noteq> []" and x: "x = Index s sep" and nneg: "\<not> x < 0"
  have "s \<noteq> []"
  proof
    assume "s = []"
    with sep x nneg show False by simp
  qed
  with sep show "((drop (nat x + length sep) s, sep), (s, sep)) \<in> measure (\<lambda>(s, sep). length s)"
    by (cases s) auto
qed

text \<open>
  The loop of \<open>genSplit\<close>: at most \<open>k\<close> cuts, each at the first separator of what is left;
  the rest of the string is the last element.
\<close>

fun splitLoop :: "string \<Rightarrow> string \<Rightarrow> nat \<Rightarrow> string list" where
  "splitLoop s sep 0 = [s]"
| "splitLoop s sep (Suc k) =
     (let m = Index s sep
      in if m < 0 then [s]
         else take (nat m) s # splitLoop (drop (nat m + length sep) s) sep k)"

text \<open>
  \<open>explode\<close> serves the empty separator. Go cuts after every UTF-8 sequence; the model cuts
  after every byte, which is the same on ASCII input. No function of the package passes
  an empty separator.
\<close>

fun explode :: "string \<Rightarrow> nat \<Rightarrow> string list" where
  "explode [] k = []"
| "explode (c # s) 0 = [c # s]"
| "explode (c # s) (Suc k) = (if s = [] then [[c]] else [c] # explode s k)"

definition SplitN :: "string \<Rightarrow> string \<Rightarrow> int \<Rightarrow> string list" where
  "SplitN s sep n =
     (if n = 0 then []
      else if sep = [] then explode s (if n < 0 then length s else nat (n - 1))
      else (let n1 = (if n < 0 then int (Count s sep) + 1 else n);
                n2 = (if int (length s) + 1 < n1 then int (length s) + 1 else n1)
            in splitLoop s sep (nat (n2 - 1))))"

subsection \<open>Reading a slice element\<close>

text \<open>
  Go panics with "index out of range [i] with length n" where HOL's \<open>xs ! i\<close> would be
  unspecified; the panic is a value of the model.
\<close>

datatype panic = IndexOutOfRange nat nat

definition index :: "'a list \<Rightarrow> nat \<Rightarrow> panic + 'a" where
  "index xs i = (if i < length xs then Inr (xs ! i) else Inl (IndexOutOfRange i (length xs)))"

subsection \<open>The functions of the package\<close>

definition Instance :: "string \<Rightarrow> string \<Rightarrow> string" where
  "Instance projectName instanceName =
     (if projectName \<noteq> Default then projectName @ separator @ instanceName
      else instanceName)"

text \<open>
  The slices \<open>s[0:i]\<close> and \<open>s[i+1:]\<close> are taken at an index that \<open>LastIndex\<close> returned for
  the one-byte separator, so \<open>0 \<le> i < len(s)\<close> and neither slice expression can panic
  (lemma \<open>LastIndex_separator_range\<close>).
\<close>

definition InstanceParts :: "string \<Rightarrow> string \<times> string" where
  "InstanceParts projectInstanceName =
     (let i = LastIndex projectInstanceName separator
      in if i < 0 then (Default, projectInstanceName)
         else (take (nat i) projectInstanceName, drop (nat (i + 1)) projectInstanceName))"

definition StorageVolume :: "string \<Rightarrow> string \<Rightarrow> string" where
  "StorageVolume projectName storageVolumeName = projectName @ separator @ storageVolumeName"

definition StorageVolumeParts :: "string \<Rightarrow> panic + (string \<times> string)" where
  "StorageVolumeParts projectStorageVolumeName =
     (let parts = SplitN projectStorageVolumeName ''_'' 2
      in case index parts 0 of
           Inl p \<Rightarrow> Inl p
         | Inr project \<Rightarrow>
             (case index parts 1 of
                Inl p \<Rightarrow> Inl p
              | Inr volume \<Rightarrow> Inr (project, volume)))"

section \<open>The daemon (the file of package main that defines \<open>Daemon\<close>)\<close>

subsection \<open>Data\<close>

text \<open>
  An X.509 certificate is modelled by its bytes. \<open>certificate.Type\<close> names the three
  trust sets of the certificate cache.
\<close>

type_synonym cert = string

datatype CertType = TypeClient | TypeServer | TypeMetrics

text \<open>
  Go errors. The request pipeline tells \<open>*oidc.AuthError\<close> from every other error by a
  type assertion, so the two are different constructors.
\<close>

datatype error = AuthError string | Errorf string

fun Error :: "error \<Rightarrow> string" where
  "Error (AuthError msg) = msg"
| "Error (Errorf msg) = msg"

text \<open>
  \<open>auth.UserAccess\<close>. A Go map that was never assigned is \<open>nil\<close>: \<open>None\<close> here. The
  values stored under the project names are \<open>nil\<close> slices: \<open>[]\<close> here.
\<close>

record UserAccess =
  Admin :: bool
  Projects :: "(string \<rightharpoonup> string list) option"

text \<open>The project names that are keys of \<open>ua.Projects\<close>; a \<open>nil\<close> map has none.\<close>

definition projectNames :: "UserAccess \<Rightarrow> string set" where
  "projectNames ua = (case Projects ua of None \<Rightarrow> {} | Some projectMap \<Rightarrow> dom projectMap)"

text \<open>
  The values that the pipeline stores in the request's context with
  \<open>context.WithValue\<close>, under the keys of package \<open>request\<close>. A later value for a key
  hides an earlier one, as a map update does.
\<close>

datatype CtxKey =
  CtxUsername | CtxProtocol | CtxAccess
  | CtxForwardedAddress | CtxForwardedUsername | CtxForwardedProtocol

datatype CtxValue = StringValue string | AccessValue UserAccess

text \<open>
  The parts of \<open>*http.Request\<close> that the daemon reads. \<open>TLS\<close> is \<open>None\<close> for \<open>r.TLS == nil\<close>
  and otherwise holds \<open>r.TLS.PeerCertificates\<close>. \<open>Body\<close> is what reading the body to
  its end gives: the bytes or the read error.
\<close>

record Request =
  Method :: string
  URLPath :: string
  RemoteAddr :: string
  TLS :: "cert list option"
  Header :: "string \<rightharpoonup> string"
  Context :: "CtxKey \<rightharpoonup> CtxValue"
  Body :: "error + string"

text \<open>
  \<open>r.Header.Get(key)\<close> is the empty string when the header is missing. Go brings the
  key into its canonical spelling before it looks the header up; the model takes the
  keys of \<open>Header\<close> to be spelled as the daemon spells them.
\<close>

definition Header_Get :: "Request \<Rightarrow> string \<Rightarrow> string" where
  "Header_Get r key = (case Header r key of None \<Rightarrow> [] | Some v \<Rightarrow> v)"

text \<open>
  The responses of package \<open>response\<close> that the pipeline builds itself, and \<open>SyncResponse\<close>
  for whatever else a handler answers (status code and body).
\<close>

datatype Response =
  EmptySyncResponse
  | Unavailable string
  | Unauthorized string
  | Forbidden
  | NotImplemented
  | NotFound string
  | InternalError string
  | SyncResponse nat string

text \<open>
  Modelled from the spec: package \<open>response\<close> is not part of the source. \<open>Code\<close> is the
  HTTP status that each response renders, as the specification lists them for the
  admission responses: 503 unavailable, 401 unauthorized, 403 forbidden, 404 not found,
  501 not implemented; an internal error is 500 and the empty response is 200.
\<close>

fun Code :: "Response \<Rightarrow> nat" where
  "Code EmptySyncResponse = 200"
| "Code (Unavailable msg) = 503"
| "Code (Unauthorized msg) = 401"
| "Code Forbidden = 403"
| "Code NotImplemented = 501"
| "Code (NotFound msg) = 404"
| "Code (InternalError msg) = 500"
| "Code (SyncResponse code body) = code"

text \<open>\<open>oidc.Verifier\<close>, by the two methods \<open>Authenticate\<close> calls.\<close>

record Verifier =
  IsRequest :: "Request \<Rightarrow> bool"
  Auth :: "Request \<Rightarrow> error + string"

text \<open>
  The database handles of \<open>d.db\<close>: the node-local database and the cluster database,
  which is \<open>nil\<close> until it has been opened. Their contents are left open (\<open>'n\<close>, \<open>'c\<close>).
\<close>

record ('c, 'n) DB =
  Node :: 'n
  Cluster :: "'c option"

text \<open>
  The fields of \<open>Daemon\<close> that the request pipeline and the heartbeat handler use.
  \<open>setupChan\<close> is true once the channel is closed, \<open>shutdownCtx\<close> is true once the context
  is cancelled. \<open>clientCerts\<close> is given by its two getters, \<open>endpoints\<close> by
  \<open>NetworkCert()\<close>, \<open>globalConfig\<close> by \<open>TrustCACertificates()\<close> and \<open>authorizer\<close> by
  \<open>UserIsAdmin\<close>.
\<close>

record ('c, 'n) Daemon =
  GetCertificates :: "CertType \<Rightarrow> (string \<rightharpoonup> cert)"
  GetProjects :: "(string \<rightharpoonup> string list) option"
  NetworkCert :: cert
  TrustCACertificates :: bool
  oidcVerifier :: "Verifier option"
  UserIsAdmin :: "Request \<Rightarrow> bool"
  setupChan :: bool
  shutdownCtx :: bool
  timeSkew :: bool
  db :: "('c, 'n) DB"

text \<open>
  Functions and constants of other packages that the daemon calls and that are not part
  of the source: they are parameters of the model. \<open>CheckTrustState cert trusted
  networkCert trustCACertificates\<close> answers whether the certificate is trusted and under
  which fingerprint; \<open>GetCredFromContext\<close> gives the uid of the peer of a Unix socket;
  \<open>LookupId\<close> the user name of a uid written in decimal; \<open>Debug\<close> is \<open>daemon.Debug\<close>.
\<close>

record Extern =
  CheckTrustState :: "cert \<Rightarrow> (string \<rightharpoonup> cert) \<Rightarrow> cert \<Rightarrow> bool \<Rightarrow> bool \<times> string"
  isClusterNotification :: "Request \<Rightarrow> bool"
  GetCredFromContext :: "Request \<Rightarrow> error + nat"
  LookupId :: "string \<Rightarrow> string option"
  IsJSONRequest :: "Request \<Rightarrow> bool"
  Debug :: bool
  HeaderForwardedAddress :: string
  HeaderForwardedUsername :: string
  HeaderForwardedProtocol :: string

text \<open>\<open>fmt.Sprintf("%d", n)\<close> for an unsigned number.\<close>

fun decimal :: "nat \<Rightarrow> string" where
  "decimal n =
     (if n < 10 then [''0123456789'' ! n]
      else decimal (n div 10) @ [''0123456789'' ! (n mod 10)])"

declare decimal.simps [simp del]

subsection \<open>Authentication\<close>

definition getTrustedCertificates :: "('c, 'n) Daemon \<Rightarrow> CertType \<Rightarrow> (string \<rightharpoonup> cert)" where
  "getTrustedCertificates d = GetCertificates d"

text \<open>
  The loop \<open>for _, i := range r.TLS.PeerCertificates\<close> that \<open>Authenticate\<close> runs three
  times: the answer of the first certificate that \<open>check\<close> trusts.
\<close>

fun rangePeerCertificates :: "(cert \<Rightarrow> bool \<times> string) \<Rightarrow> cert list \<Rightarrow> string option" where
  "rangePeerCertificates check [] = None"
| "rangePeerCertificates check (i # peers) =
     (case check i of
        (trusted, fingerprint) \<Rightarrow>
          if trusted then Some fingerprint else rangePeerCertificates check peers)"

text \<open>
  \<open>Authenticate\<close> returns \<open>(trusted, username, protocol, err)\<close>. The flag \<open>w\<close> says that
  the response writer is not \<open>nil\<close>.
\<close>

definition Authenticate ::
  "Extern \<Rightarrow> ('c, 'n) Daemon \<Rightarrow> bool \<Rightarrow> Request \<Rightarrow> bool \<times> string \<times> string \<times> error option" where
  "Authenticate ext d w r =
     (let trustedCerts = getTrustedCertificates d
      in case (case TLS r of
                 None \<Rightarrow> None
               | Some peers \<Rightarrow>
                   rangePeerCertificates
                     (\<lambda>i. CheckTrustState ext i (trustedCerts TypeServer) (NetworkCert d) False)
                     peers) of
           Some fingerprint \<Rightarrow> (True, fingerprint, ''cluster'', None)
         | None \<Rightarrow>
             if RemoteAddr r = ''@'' \<and> TLS r = None then
               (if w then
                  (case GetCredFromContext ext r of
                     Inl err \<Rightarrow> (False, [], [], Some err)
                   | Inr uid \<Rightarrow>
                       (case LookupId ext (decimal uid) of
                          None \<Rightarrow> (True, ''uid='' @ decimal uid, ''unix'', None)
                        | Some username \<Rightarrow> (True, username, ''unix'', None)))
                else (True, [], ''unix'', None))
             else if RemoteAddr r = ''@dev_incus'' then
               (False, [], [],
                Some (Errorf ''Main API query can't come from /dev/incus socket''))
             else if isClusterNotification ext r then
               (False, [], [],
                Some (Errorf ''Cluster notification isn't using trusted server certificate''))
             else
               (case TLS r of
                  None \<Rightarrow> (False, [], [], Some (Errorf ''Bad/missing TLS on network query''))
                | Some peers \<Rightarrow>
                    (case (case oidcVerifier d of
                             None \<Rightarrow> None
                           | Some v \<Rightarrow> if IsRequest v r then Some (Auth v r) else None) of
                       Some (Inl err) \<Rightarrow> (False, [], [], Some err)
                     | Some (Inr userName) \<Rightarrow> (True, userName, ''oidc'', None)
                     | None \<Rightarrow>
                         (let trustCACertificates = TrustCACertificates d
                          in case (if URLPath r = ''/1.0/metrics'' then
                                     rangePeerCertificates
                                       (\<lambda>i. CheckTrustState ext i (trustedCerts TypeMetrics)
                                              (NetworkCert d) trustCACertificates)
                                       peers
                                   else None) of
                               Some username \<Rightarrow> (True, username, ''tls'', None)
                             | None \<Rightarrow>
                                 (case rangePeerCertificates
                                         (\<lambda>i. CheckTrustState ext i (trustedCerts TypeClient)
                                                (NetworkCert d) trustCACertificates)
                                         peers of
                                    Some username \<Rightarrow> (True, username, ''tls'', None)
                                  | None \<Rightarrow> (False, [], [], None))))))"

definition checkTrustedClient :: "Extern \<Rightarrow> ('c, 'n) Daemon \<Rightarrow> Request \<Rightarrow> error option" where
  "checkTrustedClient ext d r =
     (case Authenticate ext d False r of
        (trusted, username, protocol, err) \<Rightarrow>
          if \<not> trusted \<or> err \<noteq> None then
            (if err \<noteq> None then err else Some (Errorf ''Not authorized''))
          else None)"

subsection \<open>Endpoints\<close>

record ('c, 'n) APIEndpointAction =
  Handler :: "(('c, 'n) Daemon \<Rightarrow> Request \<Rightarrow> Response) option"
  AccessHandler :: "(('c, 'n) Daemon \<Rightarrow> Request \<Rightarrow> Response) option"
  AllowUntrusted :: bool

record APIEndpointAlias =
  AliasName :: string
  AliasPath :: string

record ('c, 'n) APIEndpoint =
  Name :: string
  Path :: string
  Aliases :: "APIEndpointAlias list"
  Get :: "('c, 'n) APIEndpointAction"
  Head :: "('c, 'n) APIEndpointAction"
  Put :: "('c, 'n) APIEndpointAction"
  Post :: "('c, 'n) APIEndpointAction"
  Delete :: "('c, 'n) APIEndpointAction"
  Patch :: "('c, 'n) APIEndpointAction"

definition allowAuthenticated :: "('c, 'n) Daemon \<Rightarrow> Request \<Rightarrow> Response" where
  "allowAuthenticated d r = EmptySyncResponse"

subsection \<open>The request pipeline of \<open>createCmd\<close>\<close>

text \<open>The URL under which \<open>createCmd\<close> registers the endpoint.\<close>

definition createCmd_uri :: "string \<Rightarrow> ('c, 'n) APIEndpoint \<Rightarrow> string" where
  "createCmd_uri version c =
     (if Path c = [] then ''/'' @ version
      else if version \<noteq> [] then ''/'' @ version @ ''/'' @ Path c
      else ''/'' @ Path c)"

text \<open>
  What one run of the route's handler function did: the response it rendered, the
  \<open>return\<close> statement it left by, the request as it stood then (with the authentication
  context, where one was attached), whether the OIDC headers were written, and the calls
  it made to the action's \<open>AccessHandler\<close> and \<open>Handler\<close>. A failure of \<open>Render\<close> to write
  to the connection is not modelled.
\<close>

datatype stage =
  SetupGate | Authentication | InternalCheck | TrustCheck | DebugDump | ShutdownGate | Dispatch

datatype call = AccessHandlerCall | HandlerCall

record Outcome =
  Rendered :: Response
  Returned :: stage
  Req :: Request
  OIDCHeaders :: bool
  Invoked :: "call list"

definition untrustedOk :: "('c, 'n) APIEndpoint \<Rightarrow> Request \<Rightarrow> bool" where
  "untrustedOk c r \<longleftrightarrow>
     (Method r = ''GET'' \<and> AllowUntrusted (Get c)) \<or>
     (Method r = ''POST'' \<and> AllowUntrusted (Post c))"

text \<open>
  The function literal that computes the user access data. Its error result is \<open>nil\<close> on
  every path, so the rejection that follows it in the source is never taken.
\<close>

definition userAccess :: "('c, 'n) Daemon \<Rightarrow> string \<Rightarrow> string \<Rightarrow> UserAccess" where
  "userAccess d protocol username =
     (let ua = \<lparr>Admin = True, Projects = None\<rparr>
      in if protocol = ''cluster'' then ua
         else if protocol = ''tls'' then
           (case GetProjects d of
              None \<Rightarrow> ua
            | Some certProjects \<Rightarrow>
                (case certProjects username of
                   None \<Rightarrow> ua
                 | Some projects \<Rightarrow>
                     ua\<lparr>Admin := False,
                        Projects :=
                          Some (foldl (\<lambda>projectMap projectName. projectMap(projectName \<mapsto> []))
                                  Map.empty projects)\<rparr>))
         else ua)"

text \<open>The authentication and authorization data added to the request's context.\<close>

definition withContext ::
  "Extern \<Rightarrow> ('c, 'n) Daemon \<Rightarrow> string \<Rightarrow> string \<Rightarrow> Request \<Rightarrow> Request" where
  "withContext ext d username protocol r =
     (let ctx = (Context r)
                  (CtxUsername \<mapsto> StringValue username,
                   CtxProtocol \<mapsto> StringValue protocol,
                   CtxAccess \<mapsto> AccessValue (userAccess d protocol username));
          ctx' = (if protocol = ''cluster'' then
                    ctx(CtxForwardedAddress \<mapsto>
                          StringValue (Header_Get r (HeaderForwardedAddress ext)),
                        CtxForwardedUsername \<mapsto>
                          StringValue (Header_Get r (HeaderForwardedUsername ext)),
                        CtxForwardedProtocol \<mapsto>
                          StringValue (Header_Get r (HeaderForwardedProtocol ext)))
                  else ctx)
      in r\<lparr>Context := ctx'\<rparr>)"

definition allowedDuringShutdown :: "string \<Rightarrow> ('c, 'n) APIEndpoint \<Rightarrow> Request \<Rightarrow> bool" where
  "allowedDuringShutdown version c r \<longleftrightarrow>
     (if version = ''internal'' then True
      else if Path c = [] \<or> Path c = ''events'' \<or> Path c = ''operations''
              \<or> prefix ''operations/'' (Path c) then True
      else if Method r = ''GET'' then True
      else False)"

definition handleRequest ::
  "('c, 'n) Daemon \<Rightarrow> Request \<Rightarrow> ('c, 'n) APIEndpointAction \<Rightarrow> Response \<times> call list" where
  "handleRequest d r action =
     (case Handler action of
        None \<Rightarrow> (NotImplemented, [])
      | Some handler \<Rightarrow>
          (case AccessHandler action of
             Some accessHandler \<Rightarrow>
               (let resp = accessHandler d r
                in if resp \<noteq> EmptySyncResponse then (resp, [AccessHandlerCall])
                   else (handler d r, [AccessHandlerCall, HandlerCall]))
           | None \<Rightarrow>
               if \<not> AllowUntrusted action \<and> \<not> UserIsAdmin d r then (Forbidden, [])
               else (handler d r, [HandlerCall])))"

text \<open>
  \<open>%q\<close> puts the method between double quotes (the escapes it adds for special
  characters are not modelled).
\<close>

definition quote :: "string \<Rightarrow> string" where
  "quote s = CHR 0x22 # s @ [CHR 0x22]"

text \<open>The \<open>switch r.Method\<close>.\<close>

definition dispatch :: "('c, 'n) Daemon \<Rightarrow> ('c, 'n) APIEndpoint \<Rightarrow> Request \<Rightarrow> Response \<times> call list" where
  "dispatch d c r =
     (if Method r = ''GET'' then handleRequest d r (Get c)
      else if Method r = ''HEAD'' then handleRequest d r (Head c)
      else if Method r = ''PUT'' then handleRequest d r (Put c)
      else if Method r = ''POST'' then handleRequest d r (Post c)
      else if Method r = ''DELETE'' then handleRequest d r (Delete c)
      else if Method r = ''PATCH'' then handleRequest d r (Patch c)
      else (NotFound (''Method '' @ quote (Method r) @ '' not found''), []))"

text \<open>
  The second half of the handler function, from the dump of the request in debug mode
  to the dispatch. \<open>r\<close> is the request as the first half left it.
\<close>

definition process ::
  "Extern \<Rightarrow> ('c, 'n) Daemon \<Rightarrow> string \<Rightarrow> ('c, 'n) APIEndpoint \<Rightarrow> Request \<Rightarrow> Outcome" where
  "process ext d version c r =
     (case (if Debug ext \<and> Method r \<noteq> ''GET'' \<and> IsJSONRequest ext r then
              (case Body r of Inl err \<Rightarrow> Some err | Inr captured \<Rightarrow> None)
            else None) of
        Some err \<Rightarrow>
          \<lparr>Rendered = InternalError (Error err), Returned = DebugDump, Req = r,
           OIDCHeaders = False, Invoked = []\<rparr>
      | None \<Rightarrow>
          if shutdownCtx d \<and> \<not> allowedDuringShutdown version c r then
            \<lparr>Rendered = Unavailable ''Shutting down'', Returned = ShutdownGate, Req = r,
             OIDCHeaders = False, Invoked = []\<rparr>
          else
            (case dispatch d c r of
               (resp, calls) \<Rightarrow>
                 \<lparr>Rendered = resp, Returned = Dispatch, Req = r,
                  OIDCHeaders = False, Invoked = calls\<rparr>))"

text \<open>
  The handler function that \<open>createCmd\<close> registers for the endpoint \<open>c\<close> of API version
  \<open>version\<close>, run on the request \<open>r\<close> with the daemon in state \<open>d\<close>.
\<close>

definition createCmd ::
  "Extern \<Rightarrow> ('c, 'n) Daemon \<Rightarrow> string \<Rightarrow> ('c, 'n) APIEndpoint \<Rightarrow> Request \<Rightarrow> Outcome" where
  "createCmd ext d version c r =
     (if \<not> (RemoteAddr r = ''@'' \<and> version = ''internal'') \<and> \<not> setupChan d then
        \<lparr>Rendered = Unavailable ''Daemon setup in progress'', Returned = SetupGate, Req = r,
         OIDCHeaders = False, Invoked = []\<rparr>
      else
        (case Authenticate ext d True r of
           (trusted, username, protocol, Some (AuthError msg)) \<Rightarrow>
             \<lparr>Rendered = Unauthorized msg, Returned = Authentication, Req = r,
              OIDCHeaders = (oidcVerifier d \<noteq> None), Invoked = []\<rparr>
         | (trusted, username, protocol, err) \<Rightarrow>
             if version = ''internal'' \<and> protocol \<notin> set [''unix'', ''cluster'']
                \<and> (\<not> trusted \<or> Path c \<noteq> ''cluster/accept'' \<or> protocol \<noteq> ''tls'') then
               \<lparr>Rendered = Forbidden, Returned = InternalCheck, Req = r,
                OIDCHeaders = False, Invoked = []\<rparr>
             else if trusted then
               process ext d version c (withContext ext d username protocol r)
             else if untrustedOk c r \<and> Header_Get r ''X-Incus-authenticated'' = [] then
               process ext d version c r
             else
               \<lparr>Rendered = Forbidden, Returned = TrustCheck, Req = r,
                OIDCHeaders = (oidcVerifier d \<noteq> None), Invoked = []\<rparr>))"

subsection \<open>Shared mounts\<close>

unbundle bit_operations_syntax

text \<open>
  \<open>setupSharedMounts\<close> works on the process-wide flag \<open>daemon.SharedMountsSetup\<close> and on
  the mount table of the host, whose content is left open (\<open>'fs\<close>). The functions of
  other packages that it calls are parameters: \<open>VarPath\<close>, \<open>linux.IsMountPoint\<close> and
  \<open>unix.Mount\<close>, which answers an error or \<open>nil\<close> and leaves a mount table.
  \<open>sharedMountsLock\<close> makes the calls run one after the other; the model runs them so.
\<close>

record 'fs Host =
  SharedMountsSetup :: bool
  mounts :: 'fs

record 'fs MountOps =
  VarPath :: "string \<Rightarrow> string"
  IsMountPoint :: "'fs \<Rightarrow> string \<Rightarrow> bool"
  Mount :: "'fs \<Rightarrow> string \<Rightarrow> string \<Rightarrow> string \<Rightarrow> 64 word \<Rightarrow> string \<Rightarrow> error option \<times> 'fs"

definition MS_REC :: "64 word" where
  "MS_REC = 0x4000"

definition MS_SHARED :: "64 word" where
  "MS_SHARED = 0x100000"

text \<open>A call of \<open>unix.Mount\<close>: source, target, file system type, flags and data.\<close>

datatype mount_call = MountCall string string string "64 word" string

text \<open>
  The result is the error (or \<open>nil\<close>), the state the call leaves, and the calls of
  \<open>unix.Mount\<close> it made, in order.
\<close>

definition setupSharedMounts ::
  "'fs MountOps \<Rightarrow> 'fs Host \<Rightarrow> error option \<times> 'fs Host \<times> mount_call list" where
  "setupSharedMounts ops h =
     (if SharedMountsSetup h then (None, h, [])
      else
        (let path = VarPath ops ''shmounts''
         in if IsMountPoint ops (mounts h) path then (None, h\<lparr>SharedMountsSetup := True\<rparr>, [])
            else
              (case Mount ops (mounts h) ''tmpfs'' path ''tmpfs'' 0 ''size=100k,mode=0711'' of
                 (Some err, fs1) \<Rightarrow>
                   (Some err, h\<lparr>mounts := fs1\<rparr>,
                    [MountCall ''tmpfs'' path ''tmpfs'' 0 ''size=100k,mode=0711''])
               | (None, fs1) \<Rightarrow>
                   (let flags = MS_SHARED OR MS_REC
                    in case Mount ops fs1 path path ''none'' flags [] of
                         (Some err, fs2) \<Rightarrow>
                           (Some err, h\<lparr>mounts := fs2\<rparr>,
                            [MountCall ''tmpfs'' path ''tmpfs'' 0 ''size=100k,mode=0711'',
                             MountCall path path ''none'' flags []])
                       | (None, fs2) \<Rightarrow>
                           (None, h\<lparr>mounts := fs2, SharedMountsSetup := True\<rparr>,
                            [MountCall ''tmpfs'' path ''tmpfs'' 0 ''size=100k,mode=0711'',
                             MountCall path path ''none'' flags []])))))"

subsection \<open>Heartbeats\<close>

text \<open>
  \<open>cluster.APIHeartbeat\<close> with the fields the handler reads. \<open>Members\<close> is a Go map from
  member id to member; the list gives its entries in the order in which the \<open>range\<close>
  loop of this run visits them. Times are in nanoseconds and unbounded: the wrap-around
  of \<open>time.Time\<close> at the ends of its range, some hundred thousand million years away, is
  not modelled.
\<close>

record APIHeartbeatMember =
  Address :: string
  Online :: bool
  RaftID :: nat
  RaftRole :: int
  MemberName :: string

record APIHeartbeat =
  Members :: "(int \<times> APIHeartbeatMember) list"
  Time :: int
  FullStateList :: bool

text \<open>\<open>db.RaftNode\<close>, with the fields of the embedded \<open>NodeInfo\<close>.\<close>

record RaftNode =
  ID :: nat
  NodeAddress :: string
  Role :: int
  NodeName :: string

datatype WarningType = ClusterTimeSkew | OtherWarning nat

text \<open>
  The database functions that the handler calls are not part of the source: they are
  parameters, each giving its error (or \<open>nil\<close>) and the database it leaves.
  \<open>ReplaceRaftNodes\<close> stands for the node transaction that runs \<open>tx.ReplaceRaftNodes\<close>.
  \<open>FormatTime\<close> is the \<open>%s\<close> format of a time, and \<open>HeartbeatRestart\<close> is the answer of
  \<open>d.gateway.HeartbeatRestart()\<close>.
\<close>

record ('c, 'n) ClusterOps =
  UpsertWarningLocalNode :: "'c \<Rightarrow> string \<Rightarrow> int \<Rightarrow> int \<Rightarrow> WarningType \<Rightarrow> string \<Rightarrow> error option \<times> 'c"
  ResolveWarningsByLocalNodeAndType :: "'c \<Rightarrow> WarningType \<Rightarrow> error option \<times> 'c"
  ReplaceRaftNodes :: "'n \<Rightarrow> RaftNode list \<Rightarrow> error option \<times> 'n"
  FormatTime :: "int \<Rightarrow> string"
  HeartbeatRestart :: bool

definition Second :: int where
  "Second = 1000000000"

text \<open>The loop that extracts the raft nodes from the heartbeat info.\<close>

fun raftNodesOf :: "(int \<times> APIHeartbeatMember) list \<Rightarrow> RaftNode list" where
  "raftNodesOf [] = []"
| "raftNodesOf ((memberID, node) # members) =
     (if RaftID node > 0 then
        \<lparr>ID = RaftID node, NodeAddress = Address node, Role = RaftRole node,
         NodeName = MemberName node\<rparr> # raftNodesOf members
      else raftNodesOf members)"

text \<open>The look for time skews, which is the first part of \<open>heartbeatHandler\<close>.\<close>

definition timeSkewCheck ::
  "('c, 'n) ClusterOps \<Rightarrow> int \<Rightarrow> ('c, 'n) Daemon \<Rightarrow> APIHeartbeat \<Rightarrow> ('c, 'n) Daemon" where
  "timeSkewCheck ops now d hbData =
     (if Time hbData + 5 * Second < now \<or> now < Time hbData - 5 * Second then
        (let d1 =
           (if \<not> timeSkew d then
              (case Cluster (db d) of
                 None \<Rightarrow> d
               | Some cluster \<Rightarrow>
                   d\<lparr>db := (db d)\<lparr>Cluster :=
                     Some (snd (UpsertWarningLocalNode ops cluster [] (- 1) (- 1) ClusterTimeSkew
                       (''leaderTime: '' @ FormatTime ops (Time hbData) @ '', localTime: ''
                          @ FormatTime ops now)))\<rparr>\<rparr>)
            else d)
         in d1\<lparr>timeSkew := True\<rparr>)
      else if timeSkew d then
        (let d1 =
           (case Cluster (db d) of
              None \<Rightarrow> d
            | Some cluster \<Rightarrow>
                d\<lparr>db := (db d)\<lparr>Cluster :=
                  Some (snd (ResolveWarningsByLocalNodeAndType ops cluster ClusterTimeSkew))\<rparr>\<rparr>)
         in d1\<lparr>timeSkew := False\<rparr>)
      else d)"

text \<open>
  \<open>heartbeatHandler\<close>, run at local time \<open>now\<close>. The result is the daemon it leaves, what
  it wrote with \<open>http.Error\<close> (message and status; \<open>None\<close> when it wrote nothing, which
  the HTTP server sends as status 200), and whether it started \<open>nodeRefreshTask\<close>.
\<close>

definition heartbeatHandler ::
  "('c, 'n) ClusterOps \<Rightarrow> int \<Rightarrow> ('c, 'n) Daemon \<Rightarrow> bool \<Rightarrow> APIHeartbeat
   \<Rightarrow> ('c, 'n) Daemon \<times> (string \<times> nat) option \<times> bool" where
  "heartbeatHandler ops now d isLeader hbData =
     (let d1 = timeSkewCheck ops now d hbData;
          raftNodes = raftNodesOf (Members hbData)
      in if int (length raftNodes) \<le> 0 then
           (d1, Some (''400 Empty raft member set received'', 400), False)
         else
           (case ReplaceRaftNodes ops (Node (db d1)) raftNodes of
              (Some err, node) \<Rightarrow>
                (d1\<lparr>db := (db d1)\<lparr>Node := node\<rparr>\<rparr>,
                 Some (''500 failed to update raft nodes'', 500), False)
            | (None, node) \<Rightarrow>
                (let d2 = d1\<lparr>db := (db d1)\<lparr>Node := node\<rparr>\<rparr>
                 in if FullStateList hbData then
                      (d2, None, \<not> isLeader \<or> \<not> HeartbeatRestart ops)
                    else if isLeader then
                      (d2, Some (''400 Partial heartbeat should not be sent to leader'', 400),
                       False)
                    else (d2, None, False))))"

definition StatusCode :: "(string \<times> nat) option \<Rightarrow> nat" where
  "StatusCode written = (case written of None \<Rightarrow> 200 | Some (msg, code) \<Rightarrow> code)"

text \<open>
  The heartbeats are handled one after the other (the gateway serializes them): the
  daemon after a list of heartbeats, each given with the local time at which it is
  handled and with the leader flag.
\<close>

fun heartbeats ::
  "('c, 'n) ClusterOps \<Rightarrow> ('c, 'n) Daemon \<Rightarrow> (int \<times> bool \<times> APIHeartbeat) list
   \<Rightarrow> ('c, 'n) Daemon" where
  "heartbeats ops d [] = d"
| "heartbeats ops d ((now, isLeader, hbData) # rest) =
     heartbeats ops (fst (heartbeatHandler ops now d isLeader hbData)) rest"

subsection \<open>The order of the certificate checks, in the words of the specification\<close>

text \<open>
  The specification says that the peer certificates are matched against the server
  trust set, then (on \<open>/1.0/metrics\<close> only) against the metrics trust set, then against
  the client trust set, and that the first match wins. \<open>firstMatch\<close> is the answer of the
  first certificate, in the order presented, that one trust set accepts;
  \<open>certificateMatch\<close> goes through the three sets in that order and gives the user name
  and the protocol of the first match. Both follow the specification, not the code;
  they are compared with \<open>Authenticate\<close> below.
\<close>

definition firstMatch ::
  "Extern \<Rightarrow> ('c, 'n) Daemon \<Rightarrow> CertType \<Rightarrow> bool \<Rightarrow> cert list \<Rightarrow> string option" where
  "firstMatch ext d t trustCA peers =
     map_option (\<lambda>i. snd (CheckTrustState ext i (GetCertificates d t) (NetworkCert d) trustCA))
       (find (\<lambda>i. fst (CheckTrustState ext i (GetCertificates d t) (NetworkCert d) trustCA))
          peers)"

definition certificateMatch ::
  "Extern \<Rightarrow> ('c, 'n) Daemon \<Rightarrow> Request \<Rightarrow> cert list \<Rightarrow> (string \<times> string) option" where
  "certificateMatch ext d r peers =
     (case firstMatch ext d TypeServer False peers of
        Some fingerprint \<Rightarrow> Some (fingerprint, ''cluster'')
      | None \<Rightarrow>
          (case (if URLPath r = ''/1.0/metrics''
                 then firstMatch ext d TypeMetrics (TrustCACertificates d) peers else None) of
             Some username \<Rightarrow> Some (username, ''tls'')
           | None \<Rightarrow>
               map_option (\<lambda>username. (username, ''tls''))
                 (firstMatch ext d TypeClient (TrustCACertificates d) peers)))"

subsection \<open>The dispatch, in the words of the specification\<close>

text \<open>
  The specification says: dispatch by method; if no action is registered for the method
  return 404 "Method not found"; if an action has no handler return 501; if the access
  handler is set, call it, and its non-empty response short-circuits the pipeline;
  otherwise, if \<open>allowUntrusted\<close> is false, require admin privileges, and non-admins get
  403. \<open>registeredAction\<close> is the action of the endpoint for a method, and
  \<open>dispatchedNormally\<close> is the response of a request that is dispatched, with the calls
  made to the action. Both follow the specification, not the code; they are compared
  with the handler function below.
\<close>

definition registeredAction ::
  "('c, 'n) APIEndpoint \<Rightarrow> string \<Rightarrow> ('c, 'n) APIEndpointAction option" where
  "registeredAction c method =
     map_of [(''GET'', Get c), (''HEAD'', Head c), (''PUT'', Put c), (''POST'', Post c),
             (''DELETE'', Delete c), (''PATCH'', Patch c)] method"

definition dispatchedNormally ::
  "('c, 'n) Daemon \<Rightarrow> ('c, 'n) APIEndpoint \<Rightarrow> Request \<Rightarrow> Response \<times> call list" where
  "dispatchedNormally d c r =
     (case registeredAction c (Method r) of
        None \<Rightarrow> (NotFound (''Method '' @ quote (Method r) @ '' not found''), [])
      | Some action \<Rightarrow>
          (case Handler action of
             None \<Rightarrow> (NotImplemented, [])
           | Some handler \<Rightarrow>
               (case AccessHandler action of
                  Some accessHandler \<Rightarrow>
                    if accessHandler d r = EmptySyncResponse
                    then (handler d r, [AccessHandlerCall, HandlerCall])
                    else (accessHandler d r, [AccessHandlerCall])
                | None \<Rightarrow>
                    if AllowUntrusted action \<or> UserIsAdmin d r
                    then (handler d r, [HandlerCall])
                    else (Forbidden, []))))"

section \<open>A small installation to run the model on\<close>

text \<open>
  Concrete values for the parameters, used where a statement is evaluated on an input.
  A certificate is trusted when the trust set has an entry under its own bytes, a request
  is a cluster notification when its user agent says so, the peer of the Unix socket is
  root, and nothing runs in debug mode.
\<close>

definition exampleExtern :: Extern where
  "exampleExtern =
     \<lparr>CheckTrustState =
        (\<lambda>cert trusted networkCert trustCACertificates.
           case trusted cert of None \<Rightarrow> (False, []) | Some found \<Rightarrow> (True, cert)),
      isClusterNotification = (\<lambda>r. Header r ''User-Agent'' = Some ''incus-cluster-notifier''),
      GetCredFromContext = (\<lambda>r. Inr 0),
      LookupId = (\<lambda>uid. if uid = ''0'' then Some ''root'' else None),
      IsJSONRequest = (\<lambda>r. False),
      Debug = False,
      HeaderForwardedAddress = ''X-Incus-forwarded-address'',
      HeaderForwardedUsername = ''X-Incus-forwarded-username'',
      HeaderForwardedProtocol = ''X-Incus-forwarded-protocol''\<rparr>"

text \<open>
  The cluster database is a list of warnings (type, message, resolved) and the node
  database is the list of raft nodes. The daemon trusts one server certificate and two
  client certificates, the second of which is restricted to two projects. Its authorizer
  takes the \<open>Admin\<close> flag of the access data in the request's context.
\<close>

type_synonym warnings = "(WarningType \<times> string \<times> bool) list"

definition exampleDaemon :: "(warnings, RaftNode list) Daemon" where
  "exampleDaemon =
     \<lparr>GetCertificates =
        (\<lambda>t. case t of
           TypeServer \<Rightarrow> [''server-cert'' \<mapsto> ''server-cert'']
         | TypeClient \<Rightarrow> [''admin-cert'' \<mapsto> ''admin-cert'', ''dev-cert'' \<mapsto> ''dev-cert'']
         | TypeMetrics \<Rightarrow> [''metrics-cert'' \<mapsto> ''metrics-cert'']),
      GetProjects = Some [''dev-cert'' \<mapsto> [''blue'', ''green'']],
      NetworkCert = ''network-cert'',
      TrustCACertificates = False,
      oidcVerifier = None,
      UserIsAdmin =
        (\<lambda>r. case Context r CtxAccess of Some (AccessValue ua) \<Rightarrow> Admin ua | _ \<Rightarrow> False),
      setupChan = True,
      shutdownCtx = False,
      timeSkew = False,
      db = \<lparr>Node = [], Cluster = Some []\<rparr>\<rparr>"

definition exampleOps :: "(warnings, RaftNode list) ClusterOps" where
  "exampleOps =
     \<lparr>UpsertWarningLocalNode =
        (\<lambda>cluster projectName entityTypeCode entityID typeCode message.
           (None, cluster @ [(typeCode, message, False)])),
      ResolveWarningsByLocalNodeAndType =
        (\<lambda>cluster typeCode.
           (None, map (\<lambda>(t, message, resolved). (t, message, resolved \<or> t = typeCode)) cluster)),
      ReplaceRaftNodes = (\<lambda>node raftNodes. (None, raftNodes)),
      FormatTime = (\<lambda>t. if t < 0 then ''-'' @ decimal (nat (- t)) else decimal (nat t)),
      HeartbeatRestart = False\<rparr>"

text \<open>An endpoint whose handlers answer with the method they serve.\<close>

definition exampleAction :: "string \<Rightarrow> bool \<Rightarrow> (warnings, RaftNode list) APIEndpointAction" where
  "exampleAction answer untrusted =
     \<lparr>Handler = Some (\<lambda>d r. SyncResponse 200 answer), AccessHandler = None,
      AllowUntrusted = untrusted\<rparr>"

definition exampleEndpoint :: "(warnings, RaftNode list) APIEndpoint" where
  "exampleEndpoint =
     \<lparr>Name = ''instances'', Path = ''instances'', Aliases = [],
      Get = exampleAction ''get'' True,
      Head = \<lparr>Handler = None, AccessHandler = None, AllowUntrusted = False\<rparr>,
      Put = exampleAction ''put'' True,
      Post = exampleAction ''post'' False,
      Delete = exampleAction ''delete'' False,
      Patch = exampleAction ''patch'' False\<rparr>"

text \<open>A request over TLS that presents the given certificates.\<close>

definition exampleRequest :: "string \<Rightarrow> cert list \<Rightarrow> Request" where
  "exampleRequest method peers =
     \<lparr>Method = method, URLPath = ''/1.0/instances'', RemoteAddr = ''10.0.0.7:51234'',
      TLS = Some peers, Header = Map.empty, Context = Map.empty, Body = Inr []\<rparr>"

text \<open>
  A cluster notification that presents a client certificate instead of a server
  certificate.
\<close>

definition notification :: Request where
  "notification =
     (exampleRequest ''GET'' [''admin-cert''])\<lparr>Header := [''User-Agent'' \<mapsto> ''incus-cluster-notifier'']\<rparr>"

text \<open>A full-state heartbeat of a cluster with one raft member, sent at time \<open>t\<close>.\<close>

definition exampleHeartbeat :: "int \<Rightarrow> APIHeartbeat" where
  "exampleHeartbeat t =
     \<lparr>Members = [(1, \<lparr>Address = ''10.0.0.1:8443'', Online = True, RaftID = 1, RaftRole = 0,
                       MemberName = ''node1''\<rparr>)],
      Time = t, FullStateList = True\<rparr>"

text \<open>A host whose mount table is the list of its mount points.\<close>

definition exampleMountOps :: "string list MountOps" where
  "exampleMountOps =
     \<lparr>VarPath = (\<lambda>p. ''/var/lib/incus/'' @ p),
      IsMountPoint = (\<lambda>fs path. path \<in> set fs),
      Mount = (\<lambda>fs source target fstype flags data.
                 (None, if target \<in> set fs then fs else fs @ [target]))\<rparr>"

section \<open>Properties of the project name functions\<close>

subsection \<open>Searching for a one-byte separator\<close>

lemma Index_byte_absent: "c \<notin> set s \<Longrightarrow> Index s [c] = - 1"
  by (induction s) (auto simp: Let_def)

lemma Index_byte_present:
  "c \<in> set s \<Longrightarrow> Index s [c] = int (length (takeWhile (\<lambda>x. x \<noteq> c) s))"
  by (induction s) (auto simp: Let_def)

lemma LastIndex_byte_absent: "c \<notin> set s \<Longrightarrow> LastIndex s [c] = - 1"
  by (induction s) (auto simp: Let_def)

lemma LastIndex_byte_last:
  "c \<notin> set n \<Longrightarrow> LastIndex (p @ c # n) [c] = int (length p)"
  by (induction p) (auto simp: Let_def LastIndex_byte_absent)

lemma LastIndex_byte_upper: "LastIndex s [c] < int (length s) \<or> s = []"
  by (induction s) (auto simp: Let_def)

text \<open>The index at which \<open>InstanceParts\<close> slices is inside the string.\<close>

lemma LastIndex_separator_range:
  "0 \<le> LastIndex s separator \<Longrightarrow> nat (LastIndex s separator) < length s"
  using LastIndex_byte_upper [of s "CHR ''_''"] by (auto simp: separator_def)

lemma SplitN_two_absent: "c \<notin> set s \<Longrightarrow> SplitN s [c] 2 = [s]"
  by (cases s) (auto simp: SplitN_def Let_def Index_byte_absent numeral_2_eq_2)

lemma SplitN_two_present:
  assumes c: "c \<in> set s"
  shows "SplitN s [c] 2 = [takeWhile (\<lambda>x. x \<noteq> c) s, tl (dropWhile (\<lambda>x. x \<noteq> c) s)]"
proof -
  from c have ne: "s \<noteq> []" by auto
  have tk: "take (length (takeWhile (\<lambda>x. x \<noteq> c) s)) s = takeWhile (\<lambda>x. x \<noteq> c) s"
    by (metis append_eq_conv_conj takeWhile_dropWhile_id)
  have dr: "drop (Suc (length (takeWhile (\<lambda>x. x \<noteq> c) s))) s = tl (dropWhile (\<lambda>x. x \<noteq> c) s)"
    by (metis append_eq_conv_conj drop_Suc drop_tl takeWhile_dropWhile_id tl_drop)
  from ne have "SplitN s [c] 2 = splitLoop s [c] (Suc 0)"
    by (cases s) (auto simp: SplitN_def Let_def)
  also have "\<dots> = [takeWhile (\<lambda>x. x \<noteq> c) s, tl (dropWhile (\<lambda>x. x \<noteq> c) s)]"
    using c by (simp add: Index_byte_present tk dr)
  finally show ?thesis .
qed

subsection \<open>Instance names\<close>

text \<open>
  Claim C9. For every project name and every instance name without the separator
  \<open>_\<close>, \<open>InstanceParts\<close> applied to the result of \<open>Instance\<close> gives back the project name
  and the instance name. This covers the project \<open>default\<close>, for which \<open>Instance\<close> adds
  no prefix, and project names that contain \<open>_\<close> themselves, since \<open>InstanceParts\<close>
  cuts at the last separator.
\<close>

theorem InstanceParts_Instance:
  assumes "CHR ''_'' \<notin> set instanceName"
  shows "InstanceParts (Instance projectName instanceName) = (projectName, instanceName)"
proof (cases "projectName = Default")
  case True
  with assms show ?thesis
    by (simp add: InstanceParts_def Instance_def separator_def LastIndex_byte_absent)
next
  case False
  have cut: "nat (int (length projectName) + 1) = Suc (length projectName)" by simp
  from False assms show ?thesis
    by (simp add: InstanceParts_def Instance_def separator_def LastIndex_byte_last cut
        del: of_nat_Suc)
qed

theorem InstanceParts_Instance_witness:
  "CHR ''_'' \<notin> set ''c1'' \<and>
   Instance ''my_proj'' ''c1'' = ''my_proj_c1'' \<and>
   InstanceParts (Instance ''my_proj'' ''c1'') = (''my_proj'', ''c1'') \<and>
   Instance ''default'' ''c1'' = ''c1'' \<and>
   InstanceParts (Instance ''default'' ''c1'') = (''default'', ''c1'')"
  using InstanceParts_Instance [of "''c1''" "''my_proj''"]
    InstanceParts_Instance [of "''c1''" "''default''"]
  by (simp add: Instance_def Default_def separator_def)

subsection \<open>Storage volume names\<close>

text \<open>
  Claim C10. \<open>StorageVolumeParts\<close> is not total. On a name that contains \<open>_\<close> it returns
  the part before the first \<open>_\<close> and the rest behind it. On a name without \<open>_\<close> the split
  has one element only, and reading its second element panics with an index out of
  range. Reading the first element never fails; reading the second fails exactly on the
  names without separator.
\<close>

theorem StorageVolumeParts_partial:
  "(CHR ''_'' \<in> set s \<longrightarrow>
      StorageVolumeParts s =
        Inr (takeWhile (\<lambda>x. x \<noteq> CHR ''_'') s, tl (dropWhile (\<lambda>x. x \<noteq> CHR ''_'') s))) \<and>
   (CHR ''_'' \<notin> set s \<longrightarrow> StorageVolumeParts s = Inl (IndexOutOfRange 1 1)) \<and>
   (\<exists>project. index (SplitN s ''_'' 2) 0 = Inr project) \<and>
   ((\<exists>p. index (SplitN s ''_'' 2) 1 = Inl p) \<longleftrightarrow> CHR ''_'' \<notin> set s)"
  by (cases "CHR ''_'' \<in> set s")
    (simp_all add: StorageVolumeParts_def SplitN_two_present SplitN_two_absent index_def)

theorem StorageVolumeParts_partial_witness:
  "CHR ''_'' \<in> set ''p_v_w'' \<and> StorageVolumeParts ''p_v_w'' = Inr (''p'', ''v_w'') \<and>
   CHR ''_'' \<notin> set ''vol'' \<and> StorageVolumeParts ''vol'' = Inl (IndexOutOfRange 1 1)"
  using StorageVolumeParts_partial [of "''p_v_w''"] StorageVolumeParts_partial [of "''vol''"]
  by simp

text \<open>
  The names that \<open>StorageVolume\<close> builds always contain the separator, so they can be
  taken apart; the project comes back when it has no \<open>_\<close> of its own.
\<close>

lemma StorageVolumeParts_StorageVolume:
  assumes "CHR ''_'' \<notin> set projectName"
  shows "StorageVolumeParts (StorageVolume projectName v) = Inr (projectName, v)"
proof -
  from assms have all: "\<forall>x\<in>set projectName. x \<noteq> CHR ''_''" by auto
  then have dw: "dropWhile (\<lambda>x. x \<noteq> CHR ''_'') projectName = []" by simp
  from all show ?thesis
    by (simp add: StorageVolumeParts_def StorageVolume_def separator_def
        SplitN_two_present index_def dw)
qed

section \<open>Properties of the request pipeline\<close>

subsection \<open>The stages of the handler function\<close>

lemma process_Returned:
  "Returned (process ext d version c r) \<in> {DebugDump, ShutdownGate, Dispatch}"
  by (simp add: process_def split: option.splits sum.splits prod.splits)

lemma process_not_early:
  "Returned (process ext d version c r) \<noteq> SetupGate"
  "Returned (process ext d version c r) \<noteq> Authentication"
  "Returned (process ext d version c r) \<noteq> InternalCheck"
  "Returned (process ext d version c r) \<noteq> TrustCheck"
  using process_Returned [of ext d version c r] by auto

lemma process_Req: "Req (process ext d version c r) = r"
  by (simp add: process_def split: option.splits sum.splits prod.splits)

lemma Authenticate_trusted_no_error:
  "Authenticate ext d w r = (True, username, protocol, err) \<Longrightarrow> err = None"
  by (auto simp: Authenticate_def Let_def split: option.splits sum.splits if_splits)

lemma Authenticate_untrusted:
  "Authenticate ext d w r = (False, username, protocol, err) \<Longrightarrow> username = [] \<and> protocol = []"
  by (auto simp: Authenticate_def Let_def split: option.splits sum.splits if_splits)

lemma createCmd_cases:
  assumes "Authenticate ext d True r = (trusted, username, protocol, err)"
  shows "createCmd ext d version c r =
     (if \<not> (RemoteAddr r = ''@'' \<and> version = ''internal'') \<and> \<not> setupChan d then
        \<lparr>Rendered = Unavailable ''Daemon setup in progress'', Returned = SetupGate, Req = r,
         OIDCHeaders = False, Invoked = []\<rparr>
      else if \<exists>msg. err = Some (AuthError msg) then
        \<lparr>Rendered = Unauthorized (Error (the err)), Returned = Authentication, Req = r,
         OIDCHeaders = (oidcVerifier d \<noteq> None), Invoked = []\<rparr>
      else if version = ''internal'' \<and> protocol \<noteq> ''unix'' \<and> protocol \<noteq> ''cluster''
              \<and> (\<not> trusted \<or> Path c \<noteq> ''cluster/accept'' \<or> protocol \<noteq> ''tls'') then
        \<lparr>Rendered = Forbidden, Returned = InternalCheck, Req = r,
         OIDCHeaders = False, Invoked = []\<rparr>
      else if trusted then process ext d version c (withContext ext d username protocol r)
      else if untrustedOk c r \<and> Header_Get r ''X-Incus-authenticated'' = [] then
        process ext d version c r
      else
        \<lparr>Rendered = Forbidden, Returned = TrustCheck, Req = r,
         OIDCHeaders = (oidcVerifier d \<noteq> None), Invoked = []\<rparr>)"
proof (cases err)
  case None
  with assms show ?thesis by (simp add: createCmd_def)
next
  case (Some e)
  with assms show ?thesis by (cases e) (simp_all add: createCmd_def)
qed

subsection \<open>The setup gate\<close>

text \<open>
  Claim C1. A request that arrives before \<open>setupChan\<close> is closed, and that is not a
  request over the local Unix socket to the API version \<open>internal\<close>, is answered with
  503 and the error "Daemon setup in progress": the handler function returns at the
  setup gate, before it authenticates, attaches a context or calls a handler. Once
  \<open>setupChan\<close> is closed no request is stopped at the setup gate.
\<close>

theorem createCmd_setup_gate:
  "(\<not> setupChan d \<and> \<not> (RemoteAddr r = ''@'' \<and> version = ''internal'') \<longrightarrow>
      createCmd ext d version c r =
        \<lparr>Rendered = Unavailable ''Daemon setup in progress'', Returned = SetupGate, Req = r,
         OIDCHeaders = False, Invoked = []\<rparr> \<and>
      Code (Rendered (createCmd ext d version c r)) = 503) \<and>
   (setupChan d \<longrightarrow> Returned (createCmd ext d version c r) \<noteq> SetupGate)"
proof (intro conjI impI)
  assume "\<not> setupChan d \<and> \<not> (RemoteAddr r = ''@'' \<and> version = ''internal'')"
  then show gate: "createCmd ext d version c r =
        \<lparr>Rendered = Unavailable ''Daemon setup in progress'', Returned = SetupGate, Req = r,
         OIDCHeaders = False, Invoked = []\<rparr>"
    by (simp add: createCmd_def)
  then show "Code (Rendered (createCmd ext d version c r)) = 503" by simp
next
  assume closed: "setupChan d"
  obtain trusted username protocol err
    where auth: "Authenticate ext d True r = (trusted, username, protocol, err)"
    by (cases "Authenticate ext d True r") auto
  show "Returned (createCmd ext d version c r) \<noteq> SetupGate"
    using closed by (simp add: createCmd_cases [OF auth] process_not_early)
qed

theorem createCmd_setup_gate_witness:
  "\<not> setupChan (exampleDaemon\<lparr>setupChan := False\<rparr>) \<and>
   \<not> (RemoteAddr (exampleRequest ''GET'' [''admin-cert'']) = ''@'' \<and> ''1.0'' = ''internal'') \<and>
   Rendered (createCmd exampleExtern (exampleDaemon\<lparr>setupChan := False\<rparr>) ''1.0'' exampleEndpoint
      (exampleRequest ''GET'' [''admin-cert''])) = Unavailable ''Daemon setup in progress'' \<and>
   setupChan exampleDaemon \<and>
   Returned (createCmd exampleExtern exampleDaemon ''1.0'' exampleEndpoint
      (exampleRequest ''GET'' [''admin-cert''])) \<noteq> SetupGate \<and>
   Rendered (createCmd exampleExtern exampleDaemon ''1.0'' exampleEndpoint
      (exampleRequest ''GET'' [''admin-cert''])) = SyncResponse 200 ''get''"
proof -
  let ?r = "exampleRequest ''GET'' [''admin-cert'']"
  let ?early = "exampleDaemon\<lparr>setupChan := False\<rparr>"
  have before: "\<not> setupChan ?early \<and> \<not> (RemoteAddr ?r = ''@'' \<and> ''1.0'' = ''internal'')"
    by simp
  have after: "setupChan exampleDaemon" by (simp add: exampleDaemon_def)
  have auth: "Authenticate exampleExtern exampleDaemon True ?r
      = (True, ''admin-cert'', ''tls'', None)"
    by (simp add: Authenticate_def exampleExtern_def exampleDaemon_def exampleRequest_def
        getTrustedCertificates_def)
  have answer: "Rendered (createCmd exampleExtern exampleDaemon ''1.0'' exampleEndpoint ?r)
      = SyncResponse 200 ''get''"
    unfolding createCmd_cases [OF auth]
    by (simp add: process_def allowedDuringShutdown_def exampleDaemon_def exampleExtern_def
        exampleEndpoint_def exampleRequest_def withContext_def dispatch_def handleRequest_def
        exampleAction_def)
  from createCmd_setup_gate [of ?early ?r "''1.0''" exampleExtern exampleEndpoint,
      THEN conjunct1, THEN mp, OF before]
  have unavailable: "Rendered (createCmd exampleExtern ?early ''1.0'' exampleEndpoint ?r)
      = Unavailable ''Daemon setup in progress''"
    by simp
  from createCmd_setup_gate [of exampleDaemon ?r "''1.0''" exampleExtern exampleEndpoint,
      THEN conjunct2, THEN mp, OF after]
  have admitted: "Returned (createCmd exampleExtern exampleDaemon ''1.0'' exampleEndpoint ?r)
      \<noteq> SetupGate" .
  show ?thesis
    by (rule conjI, rule before [THEN conjunct1], rule conjI, rule before [THEN conjunct2],
        rule conjI, rule unavailable, rule conjI, rule after, rule conjI, rule admitted,
        rule answer)
qed

subsection \<open>The shutdown gate\<close>

lemma allowedDuringShutdown_iff:
  "allowedDuringShutdown version c r \<longleftrightarrow>
     version = ''internal'' \<or> Path c = [] \<or> Path c = ''events'' \<or> Path c = ''operations''
     \<or> prefix ''operations/'' (Path c) \<or> Method r = ''GET''"
  by (simp add: allowedDuringShutdown_def)

text \<open>The code dispatches as the specification says.\<close>

lemma handleRequest_spec:
  "handleRequest d r action =
     (case Handler action of
        None \<Rightarrow> (NotImplemented, [])
      | Some handler \<Rightarrow>
          (case AccessHandler action of
             Some accessHandler \<Rightarrow>
               if accessHandler d r = EmptySyncResponse
               then (handler d r, [AccessHandlerCall, HandlerCall])
               else (accessHandler d r, [AccessHandlerCall])
           | None \<Rightarrow>
               if AllowUntrusted action \<or> UserIsAdmin d r
               then (handler d r, [HandlerCall])
               else (Forbidden, [])))"
  by (simp add: handleRequest_def Let_def split: option.splits)

lemma dispatch_dispatchedNormally: "dispatch d c r = dispatchedNormally d c r"
  by (simp add: dispatch_def dispatchedNormally_def registeredAction_def handleRequest_spec)

text \<open>
  Which requests get as far as being processed: those that pass the setup gate, whose
  authentication did not end in an OIDC error, that are not turned away from the
  \<open>internal\<close> version, and that are trusted or allowed without trust.
\<close>

lemma stage_of_chain:
  fixes G E I T U :: bool
  assumes "Returned p1 \<in> S" and "Returned p2 \<in> S"
    and "Returned a \<notin> S" and "Returned b \<notin> S" and "Returned f \<notin> S" and "Returned e \<notin> S"
  shows "Returned (if G then a else if E then b else if I then f else if T then p1
                   else if U then p2 else e) \<in> S
         \<longleftrightarrow> \<not> G \<and> \<not> E \<and> \<not> I \<and> (T \<or> U)"
  using assms by auto

lemma createCmd_processed_iff:
  assumes "Authenticate ext d True r = (trusted, username, protocol, err)"
  shows "Returned (createCmd ext d version c r) \<in> {DebugDump, ShutdownGate, Dispatch} \<longleftrightarrow>
     \<not> (\<not> (RemoteAddr r = ''@'' \<and> version = ''internal'') \<and> \<not> setupChan d) \<and>
     \<not> (\<exists>msg. err = Some (AuthError msg)) \<and>
     \<not> (version = ''internal'' \<and> protocol \<noteq> ''unix'' \<and> protocol \<noteq> ''cluster''
          \<and> (\<not> trusted \<or> Path c \<noteq> ''cluster/accept'' \<or> protocol \<noteq> ''tls'')) \<and>
     (trusted \<or> untrustedOk c r \<and> Header_Get r ''X-Incus-authenticated'' = [])"
  unfolding createCmd_cases [OF assms]
  by (rule stage_of_chain) (simp_all add: process_Returned [simplified])

text \<open>
  Claim C2, as amended. Take a request that no earlier stage of the pipeline has
  answered: it passed the setup gate, its authentication did not end in an OIDC error
  (401), it was not turned away from the \<open>internal\<close> version (403), it is trusted or
  allowed without trust (403 otherwise), and its body could be read for the debug dump
  (500 otherwise). Once \<open>shutdownCtx\<close> is cancelled such a request is answered with 503
  "Shutting down" and no handler is called, unless the version is \<open>internal\<close>, or the
  endpoint path is empty, \<open>events\<close>, \<open>operations\<close> or starts with \<open>operations/\<close>, or the
  method is GET. A request under one of these exceptions is dispatched as the
  specification describes the dispatch: by method, with 404 for a method without action,
  501 for an action without handler, the access handler's non-empty response, 403 for a
  non-admin where untrusted access is not allowed, and the handler's response otherwise.
  The request \<open>r'\<close> is the request as the handlers see it, with the authentication
  context if it is trusted.
\<close>

theorem createCmd_shutdown_gate:
  assumes "shutdownCtx d"
    and "Authenticate ext d True r = (trusted, username, protocol, err)"
    and "RemoteAddr r = ''@'' \<and> version = ''internal'' \<or> setupChan d"
    and "\<forall>msg. err \<noteq> Some (AuthError msg)"
    and "version = ''internal'' \<longrightarrow>
           protocol = ''unix'' \<or> protocol = ''cluster'' \<or>
           (trusted \<and> Path c = ''cluster/accept'' \<and> protocol = ''tls'')"
    and "trusted \<or>
           ((Method r = ''GET'' \<and> AllowUntrusted (Get c)) \<or>
            (Method r = ''POST'' \<and> AllowUntrusted (Post c))) \<and>
           Header_Get r ''X-Incus-authenticated'' = []"
    and "r' = (if trusted then withContext ext d username protocol r else r)"
    and "\<not> (Debug ext \<and> Method r \<noteq> ''GET'' \<and> IsJSONRequest ext r' \<and> (\<exists>e. Body r = Inl e))"
  shows "(\<not> (version = ''internal'' \<or> Path c = [] \<or> Path c = ''events''
              \<or> Path c = ''operations'' \<or> prefix ''operations/'' (Path c)
              \<or> Method r = ''GET'') \<longrightarrow>
            createCmd ext d version c r =
              \<lparr>Rendered = Unavailable ''Shutting down'', Returned = ShutdownGate, Req = r',
               OIDCHeaders = False, Invoked = []\<rparr> \<and>
            Code (Rendered (createCmd ext d version c r)) = 503) \<and>
         (version = ''internal'' \<or> Path c = [] \<or> Path c = ''events''
              \<or> Path c = ''operations'' \<or> prefix ''operations/'' (Path c)
              \<or> Method r = ''GET'' \<longrightarrow>
            createCmd ext d version c r =
              \<lparr>Rendered = fst (dispatchedNormally d c r'), Returned = Dispatch, Req = r',
               OIDCHeaders = False, Invoked = snd (dispatchedNormally d c r')\<rparr>)"
proof -
  let ?allowed = "version = ''internal'' \<or> Path c = [] \<or> Path c = ''events''
              \<or> Path c = ''operations'' \<or> prefix ''operations/'' (Path c)
              \<or> Method r = ''GET''"
  have g: "(\<not> (RemoteAddr r = ''@'' \<and> version = ''internal'') \<and> \<not> setupChan d) = False"
    using assms(3) by blast
  have e: "(\<exists>msg. err = Some (AuthError msg)) = False"
    using assms(4) by simp
  have i: "(version = ''internal'' \<and> protocol \<noteq> ''unix'' \<and> protocol \<noteq> ''cluster''
            \<and> (\<not> trusted \<or> Path c \<noteq> ''cluster/accept'' \<or> protocol \<noteq> ''tls'')) = False"
    using assms(5) by blast
  have u: "\<not> trusted \<Longrightarrow>
      (untrustedOk c r \<and> Header_Get r ''X-Incus-authenticated'' = []) = True"
    using assms(6) by (simp add: untrustedOk_def)
  have out: "createCmd ext d version c r = process ext d version c r'"
  proof (cases trusted)
    case True
    then show ?thesis
      unfolding createCmd_cases [OF assms(2)] g e i by (simp add: assms(7))
  next
    case False
    then show ?thesis
      unfolding createCmd_cases [OF assms(2)] g e i by (simp add: assms(7) u)
  qed
  have m: "Method r' = Method r" and b: "Body r' = Body r"
    by (simp_all add: assms(7) withContext_def Let_def)
  have nodump: "(if Debug ext \<and> Method r' \<noteq> ''GET'' \<and> IsJSONRequest ext r' then
                   (case Body r' of Inl err \<Rightarrow> Some err | Inr captured \<Rightarrow> None)
                 else None) = None"
    using assms(8) by (auto simp: m b split: sum.splits)
  have gate: "process ext d version c r' =
      (if \<not> ?allowed then
         \<lparr>Rendered = Unavailable ''Shutting down'', Returned = ShutdownGate, Req = r',
          OIDCHeaders = False, Invoked = []\<rparr>
       else
         \<lparr>Rendered = fst (dispatchedNormally d c r'), Returned = Dispatch, Req = r',
          OIDCHeaders = False, Invoked = snd (dispatchedNormally d c r')\<rparr>)"
    unfolding process_def nodump
    by (simp add: assms(1) allowedDuringShutdown_iff m dispatch_dispatchedNormally
        split: prod.splits)
  show ?thesis
  proof (cases ?allowed)
    case True
    then show ?thesis unfolding out gate by simp
  next
    case False
    then show ?thesis unfolding out gate by simp
  qed
qed

theorem createCmd_shutdown_gate_witness:
  "createCmd exampleExtern (exampleDaemon\<lparr>shutdownCtx := True\<rparr>) ''1.0'' exampleEndpoint
     (exampleRequest ''POST'' [''admin-cert'']) =
     \<lparr>Rendered = Unavailable ''Shutting down'', Returned = ShutdownGate,
      Req = withContext exampleExtern (exampleDaemon\<lparr>shutdownCtx := True\<rparr>) ''admin-cert'' ''tls''
              (exampleRequest ''POST'' [''admin-cert'']),
      OIDCHeaders = False, Invoked = []\<rparr> \<and>
   createCmd exampleExtern (exampleDaemon\<lparr>shutdownCtx := True\<rparr>) ''1.0'' exampleEndpoint
     (exampleRequest ''GET'' [''admin-cert'']) =
     \<lparr>Rendered = SyncResponse 200 ''get'', Returned = Dispatch,
      Req = withContext exampleExtern (exampleDaemon\<lparr>shutdownCtx := True\<rparr>) ''admin-cert'' ''tls''
              (exampleRequest ''GET'' [''admin-cert'']),
      OIDCHeaders = False, Invoked = [HandlerCall]\<rparr>"
proof -
  let ?d = "exampleDaemon\<lparr>shutdownCtx := True\<rparr>"
  let ?post = "exampleRequest ''POST'' [''admin-cert'']"
  let ?get = "exampleRequest ''GET'' [''admin-cert'']"
  let ?post' = "withContext exampleExtern ?d ''admin-cert'' ''tls'' ?post"
  let ?get' = "withContext exampleExtern ?d ''admin-cert'' ''tls'' ?get"
  have down: "shutdownCtx ?d" by simp
  have auth: "Authenticate exampleExtern ?d True (exampleRequest m [''admin-cert''])
      = (True, ''admin-cert'', ''tls'', None)" for m
    by (simp add: Authenticate_def exampleExtern_def exampleDaemon_def exampleRequest_def
        getTrustedCertificates_def)
  have closed: "RemoteAddr (exampleRequest m [''admin-cert'']) = ''@'' \<and> ''1.0'' = ''internal''
      \<or> setupChan ?d" for m
    by (simp add: exampleDaemon_def)
  have noerr: "\<forall>msg. (None :: error option) \<noteq> Some (AuthError msg)" by simp
  have public: "''1.0'' = ''internal'' \<longrightarrow>
      ''tls'' = ''unix'' \<or> ''tls'' = ''cluster'' \<or>
      (True \<and> Path exampleEndpoint = ''cluster/accept'' \<and> ''tls'' = ''tls'')"
    by simp
  have trust: "True \<or>
      ((Method (exampleRequest m [''admin-cert'']) = ''GET'' \<and> AllowUntrusted (Get exampleEndpoint)) \<or>
       (Method (exampleRequest m [''admin-cert'']) = ''POST'' \<and> AllowUntrusted (Post exampleEndpoint))) \<and>
      Header_Get (exampleRequest m [''admin-cert'']) ''X-Incus-authenticated'' = []" for m
    by simp
  have seen: "withContext exampleExtern ?d ''admin-cert'' ''tls'' (exampleRequest m [''admin-cert''])
      = (if True then withContext exampleExtern ?d ''admin-cert'' ''tls''
           (exampleRequest m [''admin-cert'']) else exampleRequest m [''admin-cert''])" for m
    by simp
  have nodump: "\<not> (Debug exampleExtern \<and> Method (exampleRequest m [''admin-cert'']) \<noteq> ''GET'' \<and>
      IsJSONRequest exampleExtern
        (withContext exampleExtern ?d ''admin-cert'' ''tls'' (exampleRequest m [''admin-cert''])) \<and>
      (\<exists>e. Body (exampleRequest m [''admin-cert'']) = Inl e))" for m
    by (simp add: exampleExtern_def)
  have refused: "\<not> (''1.0'' = ''internal'' \<or> Path exampleEndpoint = [] \<or>
      Path exampleEndpoint = ''events'' \<or> Path exampleEndpoint = ''operations'' \<or>
      prefix ''operations/'' (Path exampleEndpoint) \<or> Method ?post = ''GET'')"
    by (simp add: exampleEndpoint_def exampleRequest_def)
  have allowed: "''1.0'' = ''internal'' \<or> Path exampleEndpoint = [] \<or>
      Path exampleEndpoint = ''events'' \<or> Path exampleEndpoint = ''operations'' \<or>
      prefix ''operations/'' (Path exampleEndpoint) \<or> Method ?get = ''GET''"
    by (simp add: exampleRequest_def)
  have answer: "dispatchedNormally ?d exampleEndpoint ?get' = (SyncResponse 200 ''get'', [HandlerCall])"
    by (simp add: dispatchedNormally_def registeredAction_def withContext_def exampleRequest_def
        exampleEndpoint_def exampleAction_def)
  from createCmd_shutdown_gate [OF down auth closed noerr public trust seen nodump,
      THEN conjunct1, THEN mp, OF refused, THEN conjunct1]
  have post: "createCmd exampleExtern ?d ''1.0'' exampleEndpoint ?post =
     \<lparr>Rendered = Unavailable ''Shutting down'', Returned = ShutdownGate, Req = ?post',
      OIDCHeaders = False, Invoked = []\<rparr>" .
  from createCmd_shutdown_gate [OF down auth closed noerr public trust seen nodump,
      THEN conjunct2, THEN mp, OF allowed]
  have get: "createCmd exampleExtern ?d ''1.0'' exampleEndpoint ?get =
     \<lparr>Rendered = SyncResponse 200 ''get'', Returned = Dispatch, Req = ?get',
      OIDCHeaders = False, Invoked = [HandlerCall]\<rparr>"
    unfolding answer by simp
  show ?thesis by (rule conjI, rule post, rule get)
qed

text \<open>
  The claim as it is written, for every request after the cancellation, does not hold:
  the gate comes after the trust check. An untrusted POST that is not allow-listed, to
  an action that does not allow untrusted requests, is answered 403 at the trust check
  while the daemon shuts down, not 503.
\<close>

theorem createCmd_shutdown_gate_counterexample:
  "shutdownCtx (exampleDaemon\<lparr>shutdownCtx := True\<rparr>) \<and>
   \<not> allowedDuringShutdown ''1.0'' exampleEndpoint (exampleRequest ''POST'' []) \<and>
   createCmd exampleExtern (exampleDaemon\<lparr>shutdownCtx := True\<rparr>) ''1.0'' exampleEndpoint
     (exampleRequest ''POST'' []) =
     \<lparr>Rendered = Forbidden, Returned = TrustCheck, Req = exampleRequest ''POST'' [],
      OIDCHeaders = False, Invoked = []\<rparr>"
proof -
  let ?d = "exampleDaemon\<lparr>shutdownCtx := True\<rparr>"
  have auth: "Authenticate exampleExtern ?d True (exampleRequest ''POST'' [])
      = (False, [], [], None)"
    by (simp add: Authenticate_def exampleExtern_def exampleDaemon_def exampleRequest_def
        getTrustedCertificates_def)
  have out: "createCmd exampleExtern ?d ''1.0'' exampleEndpoint (exampleRequest ''POST'' []) =
     \<lparr>Rendered = Forbidden, Returned = TrustCheck, Req = exampleRequest ''POST'' [],
      OIDCHeaders = False, Invoked = []\<rparr>"
    unfolding createCmd_cases [OF auth]
    by (simp add: untrustedOk_def exampleDaemon_def exampleEndpoint_def exampleAction_def
        exampleRequest_def)
  have rest: "shutdownCtx ?d \<and>
      \<not> allowedDuringShutdown ''1.0'' exampleEndpoint (exampleRequest ''POST'' [])"
    by (simp add: allowedDuringShutdown_def exampleEndpoint_def exampleRequest_def)
  show ?thesis
    by (rule conjI, rule rest [THEN conjunct1], rule conjI, rule rest [THEN conjunct2], rule out)
qed

subsection \<open>The order of the certificate checks\<close>

text \<open>The loop over the peer certificates gives the answer of the first one that is trusted.\<close>

lemma rangePeerCertificates_find:
  "rangePeerCertificates check peers =
     map_option (\<lambda>i. snd (check i)) (find (\<lambda>i. fst (check i)) peers)"
  by (induction peers) (auto split: prod.splits)

lemma rangePeerCertificates_firstMatch:
  "rangePeerCertificates
     (\<lambda>i. CheckTrustState ext i (getTrustedCertificates d t) (NetworkCert d) trustCA) peers
   = firstMatch ext d t trustCA peers"
  by (simp add: rangePeerCertificates_find firstMatch_def getTrustedCertificates_def)

text \<open>The first match, by position in the list of peer certificates.\<close>

lemma firstMatch_Some_iff:
  "firstMatch ext d t trustCA peers = Some username \<longleftrightarrow>
     (\<exists>k < length peers.
        CheckTrustState ext (peers ! k) (GetCertificates d t) (NetworkCert d) trustCA
          = (True, username) \<and>
        (\<forall>j < k. \<not> fst (CheckTrustState ext (peers ! j) (GetCertificates d t) (NetworkCert d)
                          trustCA)))"
  by (auto simp: firstMatch_def find_Some_iff prod_eq_iff)

text \<open>
  Claim C3, as amended. For a request that carries TLS peer certificates: a match
  against the server trust set comes first and makes the request a trusted \<open>cluster\<close>
  request under the fingerprint of the first certificate that matches. When no
  certificate matches the server trust set, and the request does not come from
  \<open>@dev_incus\<close>, is not a cluster notification and is not an OIDC request of a configured
  verifier, \<open>Authenticate\<close> goes on in the order of the specification: the metrics trust
  set (on \<open>/1.0/metrics\<close> only), then the client trust set, and the first match makes the
  request a trusted \<open>tls\<close> request; with no match at all it is not trusted.
\<close>

theorem Authenticate_certificate_order:
  assumes "TLS r = Some peers"
  shows "(\<forall>fingerprint. firstMatch ext d TypeServer False peers = Some fingerprint \<longrightarrow>
            Authenticate ext d w r = (True, fingerprint, ''cluster'', None)) \<and>
         (RemoteAddr r \<noteq> ''@dev_incus'' \<and> \<not> isClusterNotification ext r \<and>
          \<not> (\<exists>v. oidcVerifier d = Some v \<and> IsRequest v r) \<longrightarrow>
            Authenticate ext d w r =
              (case certificateMatch ext d r peers of
                 Some (username, protocol) \<Rightarrow> (True, username, protocol, None)
               | None \<Rightarrow> (False, [], [], None)))"
  using assms
  by (auto simp: Authenticate_def Let_def rangePeerCertificates_firstMatch certificateMatch_def
      split: option.splits)


theorem Authenticate_certificate_order_witness:
  "TLS (exampleRequest ''GET'' [''unknown'', ''dev-cert'', ''admin-cert''])
     = Some [''unknown'', ''dev-cert'', ''admin-cert''] \<and>
   Authenticate exampleExtern exampleDaemon True
     (exampleRequest ''GET'' [''unknown'', ''dev-cert'', ''admin-cert''])
     = (True, ''dev-cert'', ''tls'', None) \<and>
   TLS (exampleRequest ''GET'' [''admin-cert'', ''server-cert''])
     = Some [''admin-cert'', ''server-cert''] \<and>
   firstMatch exampleExtern exampleDaemon TypeServer False [''admin-cert'', ''server-cert'']
     = Some ''server-cert'' \<and>
   Authenticate exampleExtern exampleDaemon True
     (exampleRequest ''GET'' [''admin-cert'', ''server-cert''])
     = (True, ''server-cert'', ''cluster'', None)"
proof -
  let ?r1 = "exampleRequest ''GET'' [''unknown'', ''dev-cert'', ''admin-cert'']"
  let ?r2 = "exampleRequest ''GET'' [''admin-cert'', ''server-cert'']"
  have t1: "TLS ?r1 = Some [''unknown'', ''dev-cert'', ''admin-cert'']"
    and t2: "TLS ?r2 = Some [''admin-cert'', ''server-cert'']"
    by (simp_all add: exampleRequest_def)
  have guards: "RemoteAddr ?r1 \<noteq> ''@dev_incus'' \<and> \<not> isClusterNotification exampleExtern ?r1 \<and>
      \<not> (\<exists>v. oidcVerifier exampleDaemon = Some v \<and> IsRequest v ?r1)"
    by (simp add: exampleRequest_def exampleExtern_def exampleDaemon_def)
  have m1: "certificateMatch exampleExtern exampleDaemon ?r1
              [''unknown'', ''dev-cert'', ''admin-cert''] = Some (''dev-cert'', ''tls'')"
    by (simp add: certificateMatch_def firstMatch_def exampleExtern_def exampleDaemon_def
        exampleRequest_def)
  have m2: "firstMatch exampleExtern exampleDaemon TypeServer False [''admin-cert'', ''server-cert'']
              = Some ''server-cert''"
    by (simp add: firstMatch_def exampleExtern_def exampleDaemon_def)
  from Authenticate_certificate_order [OF t1, of exampleExtern exampleDaemon True] guards m1
  have "Authenticate exampleExtern exampleDaemon True ?r1 = (True, ''dev-cert'', ''tls'', None)"
    by simp
  moreover from Authenticate_certificate_order [OF t2, of exampleExtern exampleDaemon True] m2
  have "Authenticate exampleExtern exampleDaemon True ?r2 = (True, ''server-cert'', ''cluster'', None)"
    by simp
  ultimately show ?thesis using t1 t2 m2 by simp
qed

text \<open>
  The claim as it is written does not hold for every request with peer certificates:
  a cluster notification whose certificate is in the client trust set only is refused
  with an error, although the order of the specification finds a \<open>tls\<close> match.
\<close>

theorem Authenticate_certificate_order_counterexample:
  "TLS notification = Some [''admin-cert''] \<and>
   certificateMatch exampleExtern exampleDaemon notification [''admin-cert'']
     = Some (''admin-cert'', ''tls'') \<and>
   Authenticate exampleExtern exampleDaemon True notification
     = (False, [], [],
        Some (Errorf ''Cluster notification isn't using trusted server certificate''))"
  by (simp add: Authenticate_def certificateMatch_def firstMatch_def exampleExtern_def
      exampleDaemon_def exampleRequest_def notification_def getTrustedCertificates_def)

subsection \<open>The access data of a trusted request\<close>

lemma projectMap_fold:
  "foldl (\<lambda>projectMap projectName. projectMap(projectName \<mapsto> [])) m projects =
     (\<lambda>p. if p \<in> set projects then Some [] else m p)"
  by (induction projects arbitrary: m) (auto simp: fun_eq_iff)

lemma userAccess_restricted:
  assumes "GetProjects d = Some certProjects" and "certProjects username = Some projects"
  shows "userAccess d ''tls'' username =
           \<lparr>Admin = False, Projects = Some (\<lambda>p. if p \<in> set projects then Some [] else None)\<rparr>"
  using assms by (simp add: userAccess_def projectMap_fold)

lemma userAccess_unrestricted:
  assumes "GetProjects d = None \<or> (\<exists>certProjects. GetProjects d = Some certProjects \<and> certProjects username = None)"
  shows "userAccess d ''tls'' username = \<lparr>Admin = True, Projects = None\<rparr>"
  using assms by (auto simp: userAccess_def)

lemma userAccess_other:
  assumes "protocol \<noteq> ''tls''"
  shows "userAccess d protocol username = \<lparr>Admin = True, Projects = None\<rparr>"
  using assms by (auto simp: userAccess_def Let_def)

lemma withContext_access:
  "Context (withContext ext d username protocol r) CtxAccess
     = Some (AccessValue (userAccess d protocol username))"
  by (simp add: withContext_def Let_def)

lemma createCmd_trusted:
  assumes "Authenticate ext d True r = (True, username, protocol, err)"
    and "Returned (createCmd ext d version c r) \<notin> {SetupGate, InternalCheck}"
  shows "createCmd ext d version c r =
           process ext d version c (withContext ext d username protocol r)"
proof -
  from assms(1) have "err = None" by (rule Authenticate_trusted_no_error)
  with assms(2) show ?thesis
    unfolding createCmd_cases [OF assms(1)] by (auto split: if_splits)
qed

text \<open>
  Claim C4. When \<open>Authenticate\<close> trusts the request and the handler function gets as
  far as attaching the context (it returned neither at the setup gate nor at the check
  of the \<open>internal\<close> version), the context holds the access data under \<open>CtxAccess\<close>. For
  protocol \<open>tls\<close> and a user name (the fingerprint of the certificate) with an entry in
  the project restrictions, \<open>Admin\<close> is false and the project names are exactly those of
  the entry, each with a \<open>nil\<close> value. For protocol \<open>tls\<close> without an entry, and for the
  protocols \<open>cluster\<close> and \<open>unix\<close>, \<open>Admin\<close> is true.
\<close>

theorem createCmd_user_access:
  assumes "Authenticate ext d True r = (True, username, protocol, err)"
    and "Returned (createCmd ext d version c r) \<notin> {SetupGate, InternalCheck}"
  shows "Context (Req (createCmd ext d version c r)) CtxAccess
           = Some (AccessValue (userAccess d protocol username)) \<and>
     (protocol = ''tls'' \<and> GetProjects d = Some certProjects \<and>
      certProjects username = Some projects \<longrightarrow>
        \<not> Admin (userAccess d protocol username) \<and>
        projectNames (userAccess d protocol username) = set projects \<and>
        Projects (userAccess d protocol username)
          = Some (\<lambda>p. if p \<in> set projects then Some [] else None)) \<and>
     (protocol = ''tls'' \<and>
      (GetProjects d = None \<or> (\<exists>m. GetProjects d = Some m \<and> m username = None)) \<longrightarrow>
        Admin (userAccess d protocol username)) \<and>
     (protocol = ''cluster'' \<or> protocol = ''unix'' \<longrightarrow> Admin (userAccess d protocol username))"
proof -
  let ?ua = "userAccess d protocol username"
  have ctx: "Context (Req (createCmd ext d version c r)) CtxAccess = Some (AccessValue ?ua)"
    by (simp add: createCmd_trusted [OF assms] process_Req withContext_access)
  have restricted: "\<not> Admin ?ua \<and> projectNames ?ua = set projects \<and>
      Projects ?ua = Some (\<lambda>p. if p \<in> set projects then Some [] else None)"
    if "protocol = ''tls'' \<and> GetProjects d = Some certProjects \<and>
      certProjects username = Some projects"
  proof -
    from that have ua: "?ua =
        \<lparr>Admin = False, Projects = Some (\<lambda>p. if p \<in> set projects then Some [] else None)\<rparr>"
      by (simp add: userAccess_restricted)
    show ?thesis by (auto simp: ua projectNames_def dom_def)
  qed
  have unrestricted: "Admin ?ua"
    if "protocol = ''tls'' \<and>
       (GetProjects d = None \<or> (\<exists>m. GetProjects d = Some m \<and> m username = None))"
    using that by (simp add: userAccess_unrestricted)
  have other: "Admin ?ua" if "protocol = ''cluster'' \<or> protocol = ''unix''"
  proof -
    from that have "protocol \<noteq> ''tls''" by auto
    then show ?thesis by (simp add: userAccess_other)
  qed
  show ?thesis
    by (rule conjI, rule ctx, rule conjI, rule impI, erule restricted,
        rule conjI, rule impI, erule unrestricted, rule impI, erule other)
qed

theorem createCmd_user_access_witness:
  "Authenticate exampleExtern exampleDaemon True (exampleRequest ''POST'' [''dev-cert''])
     = (True, ''dev-cert'', ''tls'', None) \<and>
   Returned (createCmd exampleExtern exampleDaemon ''1.0'' exampleEndpoint
      (exampleRequest ''POST'' [''dev-cert''])) \<notin> {SetupGate, InternalCheck} \<and>
   GetProjects exampleDaemon = Some [''dev-cert'' \<mapsto> [''blue'', ''green'']] \<and>
   Context (Req (createCmd exampleExtern exampleDaemon ''1.0'' exampleEndpoint
        (exampleRequest ''POST'' [''dev-cert'']))) CtxAccess
     = Some (AccessValue (userAccess exampleDaemon ''tls'' ''dev-cert'')) \<and>
   \<not> Admin (userAccess exampleDaemon ''tls'' ''dev-cert'') \<and>
   projectNames (userAccess exampleDaemon ''tls'' ''dev-cert'') = {''blue'', ''green''} \<and>
   Authenticate exampleExtern exampleDaemon True (exampleRequest ''POST'' [''admin-cert''])
     = (True, ''admin-cert'', ''tls'', None) \<and>
   Admin (userAccess exampleDaemon ''tls'' ''admin-cert'') \<and>
   Authenticate exampleExtern exampleDaemon True (exampleRequest ''POST'' [''server-cert''])
     = (True, ''server-cert'', ''cluster'', None) \<and>
   Admin (userAccess exampleDaemon ''cluster'' ''server-cert'')"
proof -
  let ?r = "exampleRequest ''POST'' [''dev-cert'']"
  let ?out = "createCmd exampleExtern exampleDaemon ''1.0'' exampleEndpoint ?r"
  let ?ua = "userAccess exampleDaemon ''tls'' ''dev-cert''"
  have auth: "Authenticate exampleExtern exampleDaemon True ?r
      = (True, ''dev-cert'', ''tls'', None)"
    and auth_admin: "Authenticate exampleExtern exampleDaemon True
      (exampleRequest ''POST'' [''admin-cert'']) = (True, ''admin-cert'', ''tls'', None)"
    and auth_server: "Authenticate exampleExtern exampleDaemon True
      (exampleRequest ''POST'' [''server-cert'']) = (True, ''server-cert'', ''cluster'', None)"
    by (simp_all add: Authenticate_def exampleExtern_def exampleDaemon_def exampleRequest_def
        getTrustedCertificates_def)
  have closed: "setupChan exampleDaemon" by (simp add: exampleDaemon_def)
  have stage: "Returned ?out \<notin> {SetupGate, InternalCheck}"
    unfolding createCmd_cases [OF auth] using closed by (simp add: process_not_early)
  have stage_admin: "Returned (createCmd exampleExtern exampleDaemon ''1.0'' exampleEndpoint
      (exampleRequest ''POST'' [''admin-cert''])) \<notin> {SetupGate, InternalCheck}"
    unfolding createCmd_cases [OF auth_admin] using closed by (simp add: process_not_early)
  have stage_server: "Returned (createCmd exampleExtern exampleDaemon ''1.0'' exampleEndpoint
      (exampleRequest ''POST'' [''server-cert''])) \<notin> {SetupGate, InternalCheck}"
    unfolding createCmd_cases [OF auth_server] using closed by (simp add: process_not_early)
  have projects: "GetProjects exampleDaemon = Some [''dev-cert'' \<mapsto> [''blue'', ''green'']]"
    by (simp add: exampleDaemon_def)
  note access = createCmd_user_access [OF auth stage,
      of "[''dev-cert'' \<mapsto> [''blue'', ''green'']]" "[''blue'', ''green'']"]
  from access have ctx: "Context (Req ?out) CtxAccess = Some (AccessValue ?ua)"
    by (rule conjunct1)
  have "\<not> Admin ?ua \<and> projectNames ?ua = set [''blue'', ''green''] \<and>
        Projects ?ua = Some (\<lambda>p. if p \<in> set [''blue'', ''green''] then Some [] else None)"
    by (rule access [THEN conjunct2, THEN conjunct1, THEN mp]) (simp add: projects)
  then have restricted: "\<not> Admin ?ua" and names: "projectNames ?ua = {''blue'', ''green''}"
    by simp_all
  have admin: "Admin (userAccess exampleDaemon ''tls'' ''admin-cert'')"
    by (rule createCmd_user_access [OF auth_admin stage_admin,
          THEN conjunct2, THEN conjunct2, THEN conjunct1, THEN mp])
      (simp add: projects)
  have server: "Admin (userAccess exampleDaemon ''cluster'' ''server-cert'')"
    by (rule createCmd_user_access [OF auth_server stage_server,
          THEN conjunct2, THEN conjunct2, THEN conjunct2, THEN mp]) simp
  show ?thesis
    by (rule conjI, rule auth, rule conjI, rule stage, rule conjI, rule projects,
        rule conjI, rule ctx, rule conjI, rule restricted, rule conjI, rule names,
        rule conjI, rule auth_admin, rule conjI, rule admin, rule conjI, rule auth_server,
        rule server)
qed

subsection \<open>Untrusted requests\<close>

text \<open>
  Claim C5, as amended. Take a request that \<open>Authenticate\<close> does not trust, without an
  OIDC authentication error (which is answered 401), and that was not stopped at the
  setup gate. If the version is not \<open>internal\<close>, the method is GET or POST, the action of
  that method allows untrusted requests, and \<open>Header.Get("X-Incus-authenticated")\<close> is
  empty, the request goes on to be processed as it came, with no authentication context
  added. In every other case it is answered 403 and no handler is called.
\<close>

theorem createCmd_untrusted:
  assumes "Authenticate ext d True r = (False, username, protocol, err)"
    and "\<forall>msg. err \<noteq> Some (AuthError msg)"
    and "Returned (createCmd ext d version c r) \<noteq> SetupGate"
  shows "(version \<noteq> ''internal'' \<and>
          ((Method r = ''GET'' \<and> AllowUntrusted (Get c)) \<or>
           (Method r = ''POST'' \<and> AllowUntrusted (Post c))) \<and>
          Header_Get r ''X-Incus-authenticated'' = [] \<longrightarrow>
            createCmd ext d version c r = process ext d version c r \<and>
            Returned (createCmd ext d version c r) \<in> {DebugDump, ShutdownGate, Dispatch} \<and>
            Context (Req (createCmd ext d version c r)) = Context r) \<and>
         (\<not> (version \<noteq> ''internal'' \<and>
             ((Method r = ''GET'' \<and> AllowUntrusted (Get c)) \<or>
              (Method r = ''POST'' \<and> AllowUntrusted (Post c))) \<and>
             Header_Get r ''X-Incus-authenticated'' = []) \<longrightarrow>
            Rendered (createCmd ext d version c r) = Forbidden \<and>
            Code (Rendered (createCmd ext d version c r)) = 403 \<and>
            Returned (createCmd ext d version c r) \<in> {InternalCheck, TrustCheck} \<and>
            Invoked (createCmd ext d version c r) = [] \<and>
            Req (createCmd ext d version c r) = r)"
proof -
  let ?allowed = "version \<noteq> ''internal'' \<and>
          ((Method r = ''GET'' \<and> AllowUntrusted (Get c)) \<or>
           (Method r = ''POST'' \<and> AllowUntrusted (Post c))) \<and>
          Header_Get r ''X-Incus-authenticated'' = []"
  from assms(1) have p: "protocol = []" by (simp add: Authenticate_untrusted)
  from assms(2) have e: "\<not> (\<exists>msg. err = Some (AuthError msg))" by simp
  have g: "\<not> (\<not> (RemoteAddr r = ''@'' \<and> version = ''internal'') \<and> \<not> setupChan d)"
  proof
    assume "\<not> (RemoteAddr r = ''@'' \<and> version = ''internal'') \<and> \<not> setupChan d"
    then have "Returned (createCmd ext d version c r) = SetupGate"
      by (simp add: createCmd_def)
    with assms(3) show False by simp
  qed
  have out: "createCmd ext d version c r =
      (if version = ''internal'' then
         \<lparr>Rendered = Forbidden, Returned = InternalCheck, Req = r,
          OIDCHeaders = False, Invoked = []\<rparr>
       else if untrustedOk c r \<and> Header_Get r ''X-Incus-authenticated'' = [] then
         process ext d version c r
       else
         \<lparr>Rendered = Forbidden, Returned = TrustCheck, Req = r,
          OIDCHeaders = (oidcVerifier d \<noteq> None), Invoked = []\<rparr>)"
  proof -
    from g have g': "(\<not> (RemoteAddr r = ''@'' \<and> version = ''internal'') \<and> \<not> setupChan d) = False"
      by simp
    from e have e': "(\<exists>msg. err = Some (AuthError msg)) = False" by simp
    show ?thesis
      unfolding createCmd_cases [OF assms(1)] g' e' by (simp add: p)
  qed
  show ?thesis
  proof (cases ?allowed)
    case True
    then have "createCmd ext d version c r = process ext d version c r"
      by (simp add: out untrustedOk_def)
    with True show ?thesis
      using process_Returned [of ext d version c r] by (simp add: process_Req)
  next
    case False
    then have "createCmd ext d version c r =
         \<lparr>Rendered = Forbidden, Returned = InternalCheck, Req = r,
          OIDCHeaders = False, Invoked = []\<rparr> \<or>
        createCmd ext d version c r =
         \<lparr>Rendered = Forbidden, Returned = TrustCheck, Req = r,
          OIDCHeaders = (oidcVerifier d \<noteq> None), Invoked = []\<rparr>"
      unfolding out untrustedOk_def by (cases "version = ''internal''") auto
    with False show ?thesis by (elim disjE) simp_all
  qed
qed



theorem createCmd_untrusted_witness:
  "Authenticate exampleExtern exampleDaemon True (exampleRequest ''GET'' []) = (False, [], [], None) \<and>
   Returned (createCmd exampleExtern exampleDaemon ''1.0'' exampleEndpoint
      (exampleRequest ''GET'' [])) \<noteq> SetupGate \<and>
   createCmd exampleExtern exampleDaemon ''1.0'' exampleEndpoint (exampleRequest ''GET'' [])
     = process exampleExtern exampleDaemon ''1.0'' exampleEndpoint (exampleRequest ''GET'' []) \<and>
   Context (Req (createCmd exampleExtern exampleDaemon ''1.0'' exampleEndpoint
      (exampleRequest ''GET'' []))) = Context (exampleRequest ''GET'' []) \<and>
   Authenticate exampleExtern exampleDaemon True (exampleRequest ''POST'' []) = (False, [], [], None) \<and>
   Rendered (createCmd exampleExtern exampleDaemon ''1.0'' exampleEndpoint
      (exampleRequest ''POST'' [])) = Forbidden"
proof -
  let ?get = "exampleRequest ''GET'' []" and ?post = "exampleRequest ''POST'' []"
  have auth: "Authenticate exampleExtern exampleDaemon True (exampleRequest m [])
      = (False, [], [], None)" for m
    by (simp add: Authenticate_def exampleExtern_def exampleDaemon_def exampleRequest_def
        getTrustedCertificates_def)
  have noerr: "\<forall>msg. (None :: error option) \<noteq> Some (AuthError msg)" by simp
  have closed: "setupChan exampleDaemon" by (simp add: exampleDaemon_def)
  have stage: "Returned (createCmd exampleExtern exampleDaemon ''1.0'' exampleEndpoint
      (exampleRequest m [])) \<noteq> SetupGate" for m
    unfolding createCmd_cases [OF auth] using closed by (simp add: process_not_early)
  have allowed: "''1.0'' \<noteq> ''internal'' \<and>
      ((Method ?get = ''GET'' \<and> AllowUntrusted (Get exampleEndpoint)) \<or>
       (Method ?get = ''POST'' \<and> AllowUntrusted (Post exampleEndpoint))) \<and>
      Header_Get ?get ''X-Incus-authenticated'' = []"
    by (simp add: exampleRequest_def exampleEndpoint_def exampleAction_def Header_Get_def)
  have refused: "\<not> (''1.0'' \<noteq> ''internal'' \<and>
      ((Method ?post = ''GET'' \<and> AllowUntrusted (Get exampleEndpoint)) \<or>
       (Method ?post = ''POST'' \<and> AllowUntrusted (Post exampleEndpoint))) \<and>
      Header_Get ?post ''X-Incus-authenticated'' = [])"
    by (simp add: exampleRequest_def exampleEndpoint_def exampleAction_def Header_Get_def)
  from createCmd_untrusted [OF auth [of "''GET''"] noerr stage [of "''GET''"], THEN conjunct1,
      THEN mp, OF allowed]
  have get: "createCmd exampleExtern exampleDaemon ''1.0'' exampleEndpoint ?get
          = process exampleExtern exampleDaemon ''1.0'' exampleEndpoint ?get \<and>
        Context (Req (createCmd exampleExtern exampleDaemon ''1.0'' exampleEndpoint ?get))
          = Context ?get"
    by (elim conjE, intro conjI) assumption+
  from createCmd_untrusted [OF auth [of "''POST''"] noerr stage [of "''POST''"], THEN conjunct2,
      THEN mp, OF refused]
  have post: "Rendered (createCmd exampleExtern exampleDaemon ''1.0'' exampleEndpoint ?post)
          = Forbidden"
    by (elim conjE)
  show ?thesis
    by (rule conjI, rule auth, rule conjI, rule stage, rule conjI, rule get [THEN conjunct1],
        rule conjI, rule get [THEN conjunct2], rule conjI, rule auth, rule post)
qed

text \<open>
  The claim as it is written, for any HTTP method, does not hold: an untrusted PUT
  without the header, to an endpoint whose PUT action allows untrusted requests, is
  answered 403 at the trust check.
\<close>

theorem createCmd_untrusted_counterexample:
  "Authenticate exampleExtern exampleDaemon True (exampleRequest ''PUT'' []) = (False, [], [], None) \<and>
   AllowUntrusted (Put exampleEndpoint) \<and>
   Header (exampleRequest ''PUT'' []) ''X-Incus-authenticated'' = None \<and>
   setupChan exampleDaemon \<and> \<not> shutdownCtx exampleDaemon \<and>
   createCmd exampleExtern exampleDaemon ''1.0'' exampleEndpoint (exampleRequest ''PUT'' []) =
     \<lparr>Rendered = Forbidden, Returned = TrustCheck, Req = exampleRequest ''PUT'' [],
      OIDCHeaders = False, Invoked = []\<rparr>"
proof -
  have auth: "Authenticate exampleExtern exampleDaemon True (exampleRequest ''PUT'' [])
      = (False, [], [], None)"
    by (simp add: Authenticate_def exampleExtern_def exampleDaemon_def exampleRequest_def
        getTrustedCertificates_def)
  have out: "createCmd exampleExtern exampleDaemon ''1.0'' exampleEndpoint (exampleRequest ''PUT'' []) =
     \<lparr>Rendered = Forbidden, Returned = TrustCheck, Req = exampleRequest ''PUT'' [],
      OIDCHeaders = False, Invoked = []\<rparr>"
    unfolding createCmd_cases [OF auth]
    by (simp add: untrustedOk_def exampleDaemon_def exampleEndpoint_def exampleAction_def
        exampleRequest_def)
  have rest: "AllowUntrusted (Put exampleEndpoint) \<and>
      Header (exampleRequest ''PUT'' []) ''X-Incus-authenticated'' = None \<and>
      setupChan exampleDaemon \<and> \<not> shutdownCtx exampleDaemon"
    by (simp add: exampleDaemon_def exampleEndpoint_def exampleAction_def exampleRequest_def)
  show ?thesis
    by (rule conjI, rule auth, rule conjI, rule rest [THEN conjunct1],
        rule conjI, rule rest [THEN conjunct2, THEN conjunct1],
        rule conjI, rule rest [THEN conjunct2, THEN conjunct2, THEN conjunct1],
        rule conjI, rule rest [THEN conjunct2, THEN conjunct2, THEN conjunct2], rule out)
qed


section \<open>Properties of the shared mounts setup\<close>

lemma setupSharedMounts_flag:
  "SharedMountsSetup h \<Longrightarrow> setupSharedMounts ops h = (None, h, [])"
  by (simp add: setupSharedMounts_def)

lemma setupSharedMounts_success_flag:
  assumes "setupSharedMounts ops h = (None, h', calls)"
  shows "SharedMountsSetup h'"
  using assms
  by (auto simp: setupSharedMounts_def Let_def split: if_splits prod.splits option.splits)

lemma setupSharedMounts_repeat:
  assumes "SharedMountsSetup h"
  shows "((\<lambda>s. fst (snd (setupSharedMounts ops s))) ^^ n) h = h"
  using assms by (induction n) (simp_all add: setupSharedMounts_flag)

text \<open>
  Claim C8. After a call of \<open>setupSharedMounts\<close> that succeeded (returned \<open>nil\<close>), the
  flag \<open>SharedMountsSetup\<close> is set, and a further call returns \<open>nil\<close>, makes no call of
  \<open>unix.Mount\<close> and leaves the state as it is; so does any number of further calls. The
  second check short-circuits as well: on a host where the path is a mount point
  already, the call returns \<open>nil\<close> without mounting, whatever the flag.
\<close>

theorem setupSharedMounts_idempotent:
  assumes "setupSharedMounts ops h = (None, h', calls)"
  shows "SharedMountsSetup h' \<and>
         setupSharedMounts ops h' = (None, h', []) \<and>
         ((\<lambda>s. fst (snd (setupSharedMounts ops s))) ^^ n) h' = h' \<and>
         (IsMountPoint ops (mounts g) (VarPath ops ''shmounts'') \<longrightarrow>
            setupSharedMounts ops g = (None, g\<lparr>SharedMountsSetup := True\<rparr>, []))"
proof -
  from assms have flag: "SharedMountsSetup h'" by (rule setupSharedMounts_success_flag)
  have mp: "setupSharedMounts ops g = (None, g\<lparr>SharedMountsSetup := True\<rparr>, [])"
    if "IsMountPoint ops (mounts g) (VarPath ops ''shmounts'')"
    using that by (cases "SharedMountsSetup g") (simp_all add: setupSharedMounts_def)
  from flag mp show ?thesis
    by (simp add: setupSharedMounts_flag setupSharedMounts_repeat)
qed

theorem setupSharedMounts_idempotent_witness:
  "setupSharedMounts exampleMountOps \<lparr>SharedMountsSetup = False, mounts = []\<rparr> =
     (None, \<lparr>SharedMountsSetup = True, mounts = [''/var/lib/incus/shmounts'']\<rparr>,
      [MountCall ''tmpfs'' ''/var/lib/incus/shmounts'' ''tmpfs'' 0 ''size=100k,mode=0711'',
       MountCall ''/var/lib/incus/shmounts'' ''/var/lib/incus/shmounts'' ''none'' 0x104000 []]) \<and>
   setupSharedMounts exampleMountOps
     \<lparr>SharedMountsSetup = True, mounts = [''/var/lib/incus/shmounts'']\<rparr> =
     (None, \<lparr>SharedMountsSetup = True, mounts = [''/var/lib/incus/shmounts'']\<rparr>, []) \<and>
   setupSharedMounts exampleMountOps
     \<lparr>SharedMountsSetup = False, mounts = [''/var/lib/incus/shmounts'']\<rparr> =
     (None, \<lparr>SharedMountsSetup = True, mounts = [''/var/lib/incus/shmounts'']\<rparr>, [])"
proof -
  let ?fresh = "\<lparr>SharedMountsSetup = False, mounts = [] :: string list\<rparr>"
  let ?mounted = "\<lparr>SharedMountsSetup = False, mounts = [''/var/lib/incus/shmounts'']\<rparr>"
  have first: "setupSharedMounts exampleMountOps ?fresh =
     (None, \<lparr>SharedMountsSetup = True, mounts = [''/var/lib/incus/shmounts'']\<rparr>,
      [MountCall ''tmpfs'' ''/var/lib/incus/shmounts'' ''tmpfs'' 0 ''size=100k,mode=0711'',
       MountCall ''/var/lib/incus/shmounts'' ''/var/lib/incus/shmounts'' ''none'' 0x104000 []])"
    by (simp add: setupSharedMounts_def exampleMountOps_def MS_SHARED_def MS_REC_def Let_def)
  have there: "IsMountPoint exampleMountOps (mounts ?mounted) (VarPath exampleMountOps ''shmounts'')"
    by (simp add: exampleMountOps_def)
  note again = setupSharedMounts_idempotent [OF first, of 1 ?mounted]
  from again [THEN conjunct2, THEN conjunct2, THEN conjunct2, THEN mp, OF there]
  have third: "setupSharedMounts exampleMountOps ?mounted =
     (None, \<lparr>SharedMountsSetup = True, mounts = [''/var/lib/incus/shmounts'']\<rparr>, [])"
    by simp
  show ?thesis
    by (rule conjI, rule first, rule conjI, rule again [THEN conjunct2, THEN conjunct1],
        rule third)
qed

section \<open>Properties of the heartbeat handler\<close>

text \<open>The definitions that evaluating the handler on the example installation unfolds.\<close>

lemmas example_defs = heartbeatHandler_def timeSkewCheck_def exampleOps_def exampleDaemon_def
  exampleHeartbeat_def Second_def decimal.simps StatusCode_def

subsection \<open>An empty raft member set\<close>

lemma raftNodesOf_empty_iff:
  "raftNodesOf members = [] \<longleftrightarrow> (\<forall>(memberID, node) \<in> set members. RaftID node = 0)"
  by (induction members rule: raftNodesOf.induct) auto

lemma timeSkewCheck_Node: "Node (db (timeSkewCheck ops now d hbData)) = Node (db d)"
  by (simp add: timeSkewCheck_def Let_def split: option.splits)

lemma timeSkewCheck_unchanged:
  assumes "Cluster (db d) = None \<or>
           ((Time hbData + 5 * Second < now \<or> now < Time hbData - 5 * Second) \<longleftrightarrow> timeSkew d)"
  shows "db (timeSkewCheck ops now d hbData) = db d"
  using assms by (auto simp: timeSkewCheck_def Let_def split: option.splits)

text \<open>
  Claim C6, as amended. When no member of the heartbeat has a raft id above zero, the
  handler writes 400, starts no refresh task and leaves the node database, which holds
  the raft nodes, as it was. The daemon it leaves is the one that the look for time
  skews leaves: that look comes first and may upsert or resolve the time skew warning
  in the cluster database. Where there is no cluster database, or where the heartbeat
  does not change the skew state, no database is changed at all.
\<close>

theorem heartbeatHandler_empty_raft_set:
  assumes "\<forall>(memberID, node) \<in> set (Members hbData). RaftID node = 0"
  shows "heartbeatHandler ops now d isLeader hbData =
           (timeSkewCheck ops now d hbData,
            Some (''400 Empty raft member set received'', 400), False) \<and>
         StatusCode (fst (snd (heartbeatHandler ops now d isLeader hbData))) = 400 \<and>
         Node (db (fst (heartbeatHandler ops now d isLeader hbData))) = Node (db d) \<and>
         (Cluster (db d) = None \<or>
          ((Time hbData + 5 * Second < now \<or> now < Time hbData - 5 * Second) \<longleftrightarrow> timeSkew d) \<longrightarrow>
            db (fst (heartbeatHandler ops now d isLeader hbData)) = db d)"
proof -
  from assms have "raftNodesOf (Members hbData) = []" by (simp add: raftNodesOf_empty_iff)
  then have out: "heartbeatHandler ops now d isLeader hbData =
           (timeSkewCheck ops now d hbData,
            Some (''400 Empty raft member set received'', 400), False)"
    by (simp add: heartbeatHandler_def)
  show ?thesis
    unfolding out
    by (simp add: StatusCode_def timeSkewCheck_Node timeSkewCheck_unchanged)
qed

theorem heartbeatHandler_empty_raft_set_witness:
  "heartbeatHandler exampleOps 0 exampleDaemon False \<lparr>Members = [], Time = 0, FullStateList = True\<rparr>
     = (exampleDaemon, Some (''400 Empty raft member set received'', 400), False) \<and>
   Node (db (fst (heartbeatHandler exampleOps 0 exampleDaemon False
     \<lparr>Members = [], Time = 0, FullStateList = True\<rparr>))) = Node (db exampleDaemon) \<and>
   db (fst (heartbeatHandler exampleOps 0 exampleDaemon False
     \<lparr>Members = [], Time = 0, FullStateList = True\<rparr>)) = db exampleDaemon"
proof -
  let ?hb = "\<lparr>Members = [], Time = 0, FullStateList = True\<rparr>"
  have empty: "\<forall>(memberID, node) \<in> set (Members ?hb). RaftID node = 0" by simp
  have same: "timeSkewCheck exampleOps 0 exampleDaemon ?hb = exampleDaemon"
    by (simp add: timeSkewCheck_def exampleDaemon_def Second_def)
  have steady: "Cluster (db exampleDaemon) = None \<or>
      ((Time ?hb + 5 * Second < 0 \<or> 0 < Time ?hb - 5 * Second) \<longleftrightarrow> timeSkew exampleDaemon)"
    by (simp add: exampleDaemon_def Second_def)
  note refused = heartbeatHandler_empty_raft_set [OF empty, of exampleOps 0 exampleDaemon False]
  from refused [THEN conjunct1] same
  have out: "heartbeatHandler exampleOps 0 exampleDaemon False ?hb
      = (exampleDaemon, Some (''400 Empty raft member set received'', 400), False)"
    by simp
  show ?thesis
    by (rule conjI, rule out, rule conjI,
        rule refused [THEN conjunct2, THEN conjunct2, THEN conjunct1],
        rule refused [THEN conjunct2, THEN conjunct2, THEN conjunct2, THEN mp, OF steady])
qed

text \<open>
  The claim as it is written, no database mutation at all, does not hold: a heartbeat
  without members whose time is ten seconds ahead is answered 400, and the time skew
  warning has been added to the cluster database.
\<close>

theorem heartbeatHandler_empty_raft_set_counterexample:
  "raftNodesOf (Members \<lparr>Members = [], Time = 10 * Second, FullStateList = True\<rparr>) = [] \<and>
   Cluster (db exampleDaemon) = Some [] \<and>
   snd (heartbeatHandler exampleOps 0 exampleDaemon False
          \<lparr>Members = [], Time = 10 * Second, FullStateList = True\<rparr>)
     = (Some (''400 Empty raft member set received'', 400), False) \<and>
   Cluster (db (fst (heartbeatHandler exampleOps 0 exampleDaemon False
          \<lparr>Members = [], Time = 10 * Second, FullStateList = True\<rparr>)))
     = Some [(ClusterTimeSkew, ''leaderTime: 10000000000, localTime: 0'', False)]"
  by (simp add: example_defs)

subsection \<open>Time skew\<close>

lemma skew_abs:
  "(Time hbData + 5 * Second < now \<or> now < Time hbData - 5 * Second)
     \<longleftrightarrow> 5 * Second < \<bar>Time hbData - now\<bar>"
  by arith

lemma heartbeatHandler_timeSkewCheck:
  "timeSkew (fst (heartbeatHandler ops now d isLeader hbData))
     = timeSkew (timeSkewCheck ops now d hbData) \<and>
   Cluster (db (fst (heartbeatHandler ops now d isLeader hbData)))
     = Cluster (db (timeSkewCheck ops now d hbData))"
  by (simp add: heartbeatHandler_def Let_def split: prod.splits option.splits)

text \<open>
  Claim C7, as amended. A heartbeat whose time differs from the local time by more
  than five seconds sets \<open>timeSkew\<close>; the warning is upserted only if \<open>timeSkew\<close> was
  false before and the cluster database is open, so at most once in a skew episode (and
  whatever the upsert answers, \<open>timeSkew\<close> is set). A heartbeat inside the window while
  \<open>timeSkew\<close> is true clears \<open>timeSkew\<close> and, if the cluster database is open, resolves
  the warnings of type \<open>ClusterTimeSkew\<close>. A heartbeat inside the window while
  \<open>timeSkew\<close> is false changes neither.
\<close>

theorem heartbeatHandler_time_skew:
  "(5 * Second < \<bar>Time hbData - now\<bar> \<longrightarrow>
      timeSkew (fst (heartbeatHandler ops now d isLeader hbData)) \<and>
      Cluster (db (fst (heartbeatHandler ops now d isLeader hbData))) =
        (if timeSkew d then Cluster (db d)
         else map_option
                (\<lambda>cluster. snd (UpsertWarningLocalNode ops cluster [] (- 1) (- 1) ClusterTimeSkew
                   (''leaderTime: '' @ FormatTime ops (Time hbData) @ '', localTime: ''
                      @ FormatTime ops now)))
                (Cluster (db d)))) \<and>
   (\<not> 5 * Second < \<bar>Time hbData - now\<bar> \<and> timeSkew d \<longrightarrow>
      \<not> timeSkew (fst (heartbeatHandler ops now d isLeader hbData)) \<and>
      Cluster (db (fst (heartbeatHandler ops now d isLeader hbData))) =
        map_option (\<lambda>cluster. snd (ResolveWarningsByLocalNodeAndType ops cluster ClusterTimeSkew))
          (Cluster (db d))) \<and>
   (\<not> 5 * Second < \<bar>Time hbData - now\<bar> \<and> \<not> timeSkew d \<longrightarrow>
      \<not> timeSkew (fst (heartbeatHandler ops now d isLeader hbData)) \<and>
      Cluster (db (fst (heartbeatHandler ops now d isLeader hbData))) = Cluster (db d))"
  unfolding heartbeatHandler_timeSkewCheck [THEN conjunct1]
    heartbeatHandler_timeSkewCheck [THEN conjunct2] skew_abs [symmetric]
  by (simp add: timeSkewCheck_def Let_def split: option.splits)


theorem heartbeatHandler_time_skew_witness:
  "5 * Second < \<bar>Time (exampleHeartbeat (10 * Second)) - 0\<bar> \<and>
   timeSkew (fst (heartbeatHandler exampleOps 0 exampleDaemon False
      (exampleHeartbeat (10 * Second)))) \<and>
   Cluster (db (fst (heartbeatHandler exampleOps 0 exampleDaemon False
      (exampleHeartbeat (10 * Second)))))
     = Some [(ClusterTimeSkew, ''leaderTime: 10000000000, localTime: 0'', False)] \<and>
   \<not> 5 * Second < \<bar>Time (exampleHeartbeat 0) - 0\<bar> \<and>
   \<not> timeSkew (fst (heartbeatHandler exampleOps 0
      (exampleDaemon\<lparr>timeSkew := True,
         db := \<lparr>Node = [], Cluster = Some [(ClusterTimeSkew, ''skew'', False)]\<rparr>\<rparr>)
      False (exampleHeartbeat 0))) \<and>
   Cluster (db (fst (heartbeatHandler exampleOps 0
      (exampleDaemon\<lparr>timeSkew := True,
         db := \<lparr>Node = [], Cluster = Some [(ClusterTimeSkew, ''skew'', False)]\<rparr>\<rparr>)
      False (exampleHeartbeat 0))))
     = Some [(ClusterTimeSkew, ''skew'', True)] \<and>
   \<not> timeSkew (fst (heartbeatHandler exampleOps 0 exampleDaemon False (exampleHeartbeat 0))) \<and>
   Cluster (db (fst (heartbeatHandler exampleOps 0 exampleDaemon False (exampleHeartbeat 0))))
     = Some []"
proof -
  let ?late = "exampleHeartbeat (10 * Second)" and ?good = "exampleHeartbeat 0"
  let ?d = "exampleDaemon\<lparr>timeSkew := True,
         db := \<lparr>Node = [], Cluster = Some [(ClusterTimeSkew, ''skew'', False)]\<rparr>\<rparr>"
  have skewed: "5 * Second < \<bar>Time ?late - 0\<bar>"
    by (simp add: exampleHeartbeat_def Second_def)
  have inside: "\<not> 5 * Second < \<bar>Time ?good - 0\<bar> \<and> timeSkew ?d"
    by (simp add: exampleHeartbeat_def Second_def)
  have quiet: "\<not> 5 * Second < \<bar>Time ?good - 0\<bar> \<and> \<not> timeSkew exampleDaemon"
    by (simp add: exampleHeartbeat_def exampleDaemon_def Second_def)
  from heartbeatHandler_time_skew [of ?late 0 exampleOps exampleDaemon False,
      THEN conjunct1, THEN mp, OF skewed]
  have first: "timeSkew (fst (heartbeatHandler exampleOps 0 exampleDaemon False ?late)) \<and>
      Cluster (db (fst (heartbeatHandler exampleOps 0 exampleDaemon False ?late)))
        = Some [(ClusterTimeSkew, ''leaderTime: 10000000000, localTime: 0'', False)]"
    by (simp add: exampleOps_def exampleDaemon_def exampleHeartbeat_def Second_def decimal.simps)
  from heartbeatHandler_time_skew [of ?good 0 exampleOps ?d False,
      THEN conjunct2, THEN conjunct1, THEN mp, OF inside]
  have second: "\<not> timeSkew (fst (heartbeatHandler exampleOps 0 ?d False ?good)) \<and>
      Cluster (db (fst (heartbeatHandler exampleOps 0 ?d False ?good)))
        = Some [(ClusterTimeSkew, ''skew'', True)]"
    by (simp add: exampleOps_def exampleDaemon_def exampleHeartbeat_def Second_def)
  from heartbeatHandler_time_skew [of ?good 0 exampleOps exampleDaemon False,
      THEN conjunct2, THEN conjunct2, THEN mp, OF quiet]
  have third: "\<not> timeSkew (fst (heartbeatHandler exampleOps 0 exampleDaemon False ?good)) \<and>
      Cluster (db (fst (heartbeatHandler exampleOps 0 exampleDaemon False ?good))) = Some []"
    by (simp add: exampleDaemon_def)
  show ?thesis
    by (rule conjI, rule skewed, rule conjI, rule first [THEN conjunct1],
        rule conjI, rule first [THEN conjunct2], rule conjI, rule inside [THEN conjunct1],
        rule conjI, rule second [THEN conjunct1], rule conjI, rule second [THEN conjunct2],
        rule third)
qed

text \<open>
  While \<open>timeSkew\<close> is true, heartbeats that are still skewed change neither the flag nor
  the cluster database: no second warning in the episode.
\<close>

lemma timeSkewCheck_in_episode:
  assumes "timeSkew d" and "5 * Second < \<bar>Time hbData - now\<bar>"
  shows "timeSkewCheck ops now d hbData = d"
  using assms unfolding skew_abs [symmetric] by (simp add: timeSkewCheck_def)

lemma heartbeats_skew_episode:
  assumes "timeSkew d"
    and "\<forall>(now, isLeader, hbData) \<in> set steps. 5 * Second < \<bar>Time hbData - now\<bar>"
  shows "timeSkew (heartbeats ops d steps) \<and>
         Cluster (db (heartbeats ops d steps)) = Cluster (db d)"
  using assms
proof (induction steps arbitrary: d)
  case Nil
  then show ?case by simp
next
  case (Cons step steps)
  obtain now isLeader hbData where step: "step = (now, isLeader, hbData)"
    by (cases step) auto
  let ?d = "fst (heartbeatHandler ops now d isLeader hbData)"
  from Cons.prems step have skew: "5 * Second < \<bar>Time hbData - now\<bar>" by simp
  with Cons.prems(1) have d': "timeSkew ?d \<and> Cluster (db ?d) = Cluster (db d)"
    by (simp add: heartbeatHandler_timeSkewCheck timeSkewCheck_in_episode)
  from Cons.prems(2) have rest: "\<forall>(now, isLeader, hbData) \<in> set steps. 5 * Second < \<bar>Time hbData - now\<bar>"
    by simp
  from Cons.IH [of ?d] d' rest show ?case by (simp add: step)
qed

text \<open>
  The claim as it is written does not hold while the cluster database is not open. A
  skewed heartbeat then sets \<open>timeSkew\<close> without a warning; if the database opens during
  the episode, the heartbeats that follow create none either, so the episode ends with
  no warning at all; and a heartbeat inside the window clears the flag without
  resolving anything.
\<close>

theorem heartbeatHandler_time_skew_counterexample:
  "\<not> timeSkew (exampleDaemon\<lparr>db := \<lparr>Node = [], Cluster = None\<rparr>\<rparr>) \<and>
   fst (heartbeatHandler exampleOps 0 (exampleDaemon\<lparr>db := \<lparr>Node = [], Cluster = None\<rparr>\<rparr>)
          False (exampleHeartbeat (10 * Second)))
     = exampleDaemon\<lparr>timeSkew := True, db := \<lparr>Node = raftNodesOf (Members (exampleHeartbeat 0)),
                                               Cluster = None\<rparr>\<rparr> \<and>
   Cluster (db (heartbeats exampleOps
      (exampleDaemon\<lparr>timeSkew := True, db := \<lparr>Node = [], Cluster = Some []\<rparr>\<rparr>)
      [(1, False, exampleHeartbeat (10 * Second)), (2, False, exampleHeartbeat (10 * Second)),
       (3, False, exampleHeartbeat 0)])) = Some [] \<and>
   fst (heartbeatHandler exampleOps 0
          (exampleDaemon\<lparr>timeSkew := True, db := \<lparr>Node = [], Cluster = None\<rparr>\<rparr>)
          False (exampleHeartbeat 0))
     = exampleDaemon\<lparr>timeSkew := False, db := \<lparr>Node = raftNodesOf (Members (exampleHeartbeat 0)),
                                                Cluster = None\<rparr>\<rparr>"
  by (simp add: example_defs)

end
